theory Spec2Isabelle
  imports Complex_Main "HOL-Library.AList"
begin

section \<open>JavaScript values and strings\<close>

text \<open>
  The connectors are JavaScript. A JavaScript string is modelled as a \<open>string\<close>, one
  \<open>char\<close> per code unit. A value that may be a number, a string or \<open>undefined\<close> is a
  \<open>jsval\<close>; the numbers that occur (identifiers, positions, day counts) are integers.
  A \<open>Map\<close> is an association list: \<open>AList.update\<close> is \<open>Map.prototype.set\<close> (an
  existing key keeps its place, a new key goes last), \<open>AList.delete\<close> is
  \<open>Map.prototype.delete\<close> and \<open>map_of\<close> is \<open>Map.prototype.get\<close>.
\<close>

datatype jsval = JUndefined | JNum int | JStr string

abbreviation nl :: char where
  "nl \<equiv> CHR 0x0A"

abbreviation nl2 :: string where
  "nl2 \<equiv> [nl, nl]"

text \<open>\<open>new Map(entries)\<close>: the entries are set one after the other.\<close>

definition js_Map :: "('k \<times> 'v) list \<Rightarrow> ('k \<times> 'v) list" where
  "js_Map entries = fold (\<lambda>(k, v) m. AList.update k v m) entries []"

definition map_has :: "('k \<times> 'v) list \<Rightarrow> 'k \<Rightarrow> bool" where
  "map_has m k = (map_of m k \<noteq> None)"

text \<open>\<open>Array.prototype.join\<close>.\<close>

fun join :: "string \<Rightarrow> string list \<Rightarrow> string" where
  "join sep [] = []"
| "join sep [x] = x"
| "join sep (x # y # ys) = x @ sep @ join sep (y # ys)"

text \<open>\<open>xs.slice(-k)\<close>: the last \<open>k\<close> elements, all of them when there are fewer.\<close>

definition slice_last :: "nat \<Rightarrow> 'a list \<Rightarrow> 'a list" where
  "slice_last k xs = drop (length xs - k) xs"

text \<open>
  \<open>String.prototype.trim\<close>. The white space of the model is the white space among the
  code units below 256: tab, line feed, vertical tab, form feed, carriage return, space
  and the no-break space; the other white space code points of Unicode lie outside the
  \<open>char\<close> type.
\<close>

definition is_ws :: "char \<Rightarrow> bool" where
  "is_ws c =
     (c = CHR 0x09 \<or> c = CHR 0x0A \<or> c = CHR 0x0B \<or> c = CHR 0x0C \<or> c = CHR 0x0D \<or>
      c = CHR '' '' \<or> c = CHR 0xA0)"

definition trim :: "string \<Rightarrow> string" where
  "trim s = rev (dropWhile is_ws (rev (dropWhile is_ws s)))"

text \<open>
  \<open>s.split(/\n{2,}/)\<close>: the separators are the maximal runs of two or more line feeds (the
  quantifier is greedy and the scan goes from left to right); a single line feed stays
  in its paragraph.
\<close>

fun cons_first :: "char \<Rightarrow> string list \<Rightarrow> string list" where
  "cons_first c [] = [[c]]"
| "cons_first c (p # ps) = (c # p) # ps"

function split_blank :: "string \<Rightarrow> string list" where
  "split_blank [] = [[]]"
| "split_blank (c # cs) =
     (if c = nl \<and> (case cs of [] \<Rightarrow> False | d # _ \<Rightarrow> d = nl)
      then [] # split_blank (dropWhile (\<lambda>x. x = nl) cs)
      else cons_first c (split_blank cs))"
  by pat_completeness auto
termination
  by (relation "measure length") (auto simp: less_Suc_eq_le length_dropWhile_le)

text \<open>\<open>s.replace(/^https:/, 'http:')\<close>.\<close>

definition starts_with :: "string \<Rightarrow> string \<Rightarrow> bool" where
  "starts_with pat s = (take (length pat) s = pat)"

definition https_to_http :: "string \<Rightarrow> string" where
  "https_to_http u = (if starts_with ''https:'' u then ''http:'' @ drop 6 u else u)"

text \<open>
  \<open>s.lastIndexOf(pat)\<close>: the greatest index at which \<open>pat\<close> occurs, \<open>None\<close> for \<open>-1\<close>;
  \<open>s.indexOf(pat)\<close>: the least one.
\<close>

primrec lastIndexOf :: "string \<Rightarrow> string \<Rightarrow> nat option" where
  "lastIndexOf [] pat = (if pat = [] then Some 0 else None)"
| "lastIndexOf (c # cs) pat =
     (case lastIndexOf cs pat of
        Some i \<Rightarrow> Some (Suc i)
      | None \<Rightarrow> if starts_with pat (c # cs) then Some 0 else None)"

primrec indexOf :: "string \<Rightarrow> string \<Rightarrow> nat option" where
  "indexOf [] pat = (if pat = [] then Some 0 else None)"
| "indexOf (c # cs) pat =
     (if starts_with pat (c # cs) then Some 0 else map_option Suc (indexOf cs pat))"

text \<open>
  \<open>s.substring(a, b)\<close> on indices that are not negative: the two are swapped when
  \<open>a > b\<close>, and both are cut at the length of \<open>s\<close>. \<open>s.substring(a)\<close> is \<open>drop a s\<close>.
\<close>

definition substring :: "string \<Rightarrow> nat \<Rightarrow> nat \<Rightarrow> string" where
  "substring s a b = take (max a b - min a b) (drop (min a b) s)"

text \<open>\<open>s.split('](')\<close>.\<close>

fun split_link :: "string \<Rightarrow> string list" where
  "split_link [] = [[]]"
| "split_link [c] = [[c]]"
| "split_link (c # d # cs) =
     (if c = CHR '']'' \<and> d = CHR ''(''
      then [] # split_link cs
      else cons_first c (split_link (d # cs)))"

section \<open>Numbers and dates\<close>

text \<open>
  \<open>show_int\<close> is the decimal text of an integer, which is what \<open>String(n)\<close> and
  \<open>n.toFixed()\<close> give for an integer \<open>n\<close>.
\<close>

definition digit_char :: "nat \<Rightarrow> char" where
  "digit_char n = ''0123456789'' ! n"

function show_nat :: "nat \<Rightarrow> string" where
  "show_nat n = (if n < 10 then [digit_char n] else show_nat (n div 10) @ [digit_char (n mod 10)])"
  by pat_completeness auto
termination
  by (relation "measure id") auto

declare show_nat.simps [simp del]

definition show_int :: "int \<Rightarrow> string" where
  "show_int i = (if i < 0 then CHR ''-'' # show_nat (nat (- i)) else show_nat (nat i))"

text \<open>
  The conversion of a value to a number, which the comparisons \<open><\<close> and \<open>>\<close> with a number
  apply to their operands; \<open>None\<close> is \<open>NaN\<close>. Of the numeric strings the model reads the
  decimal integers (with white space around and a sign) and the empty string, which is
  \<open>0\<close>; the strings compared in the connectors are results of \<open>toFixed()\<close>.
\<close>

definition digit_val :: "char \<Rightarrow> nat option" where
  "digit_val c = map_of (zip ''0123456789'' [0, 1, 2, 3, 4, 5, 6, 7, 8, 9]) c"

definition add_digit :: "nat option \<Rightarrow> char \<Rightarrow> nat option" where
  "add_digit acc c =
     (case acc of None \<Rightarrow> None
      | Some a \<Rightarrow> (case digit_val c of None \<Rightarrow> None | Some d \<Rightarrow> Some (10 * a + d)))"

definition parse_digits :: "string \<Rightarrow> nat option" where
  "parse_digits s = (if s = [] then None else foldl add_digit (Some 0) s)"

definition StringToNumber :: "string \<Rightarrow> int option" where
  "StringToNumber s =
     (let t = trim s in
      if t = [] then Some 0
      else if hd t = CHR ''-'' then map_option (\<lambda>n. - int n) (parse_digits (tl t))
      else if hd t = CHR ''+'' then map_option int (parse_digits (tl t))
      else map_option int (parse_digits t))"

fun ToNumber :: "jsval \<Rightarrow> int option" where
  "ToNumber JUndefined = None"
| "ToNumber (JNum n) = Some n"
| "ToNumber (JStr s) = StringToNumber s"

text \<open>\<open>v > n\<close> for a number \<open>n\<close>.\<close>

definition js_gt :: "jsval \<Rightarrow> int \<Rightarrow> bool" where
  "js_gt v n = (case ToNumber v of None \<Rightarrow> False | Some x \<Rightarrow> n < x)"

text \<open>
  \<open>a < b\<close>: two strings are compared by their code units, any other pair as numbers, and
  a comparison with \<open>NaN\<close> is false.
\<close>

definition js_less :: "jsval \<Rightarrow> jsval \<Rightarrow> bool" where
  "js_less a b =
     (case (a, b) of
        (JStr s, JStr t) \<Rightarrow> lexordp (\<lambda>c d. (of_char c :: nat) < of_char d) s t
      | _ \<Rightarrow> (case (ToNumber a, ToNumber b) of (Some x, Some y) \<Rightarrow> x < y | _ \<Rightarrow> False))"

text \<open>
  The date wrapper. A date is its number of milliseconds since the epoch, \<open>None\<close> for an
  invalid date. \<open>parse\<close> stands for the constructor \<open>new Date(string)\<close> of the language.
  \<open>clone(date)\<close> takes the wrapper's own date when the argument is missing or empty.
  \<open>unix()\<close> is \<open>Math.round(ms / 1000)\<close> and \<open>diffDays\<close> rounds the difference of two such
  values divided by 86400. \<open>Math.round\<close> rounds a half upwards, so the two roundings
  are floor divisions; the quotients are computed in floating point, and over the range
  of the dates of the language they are close enough to the exact quotients for the
  rounded values to be the same.
\<close>

definition clone :: "(string \<Rightarrow> int option) \<Rightarrow> int \<Rightarrow> string option \<Rightarrow> int option" where
  "clone parse this date =
     (case date of None \<Rightarrow> Some this | Some s \<Rightarrow> if s = [] then Some this else parse s)"

definition unix :: "int \<Rightarrow> int" where
  "unix ms = (ms + 500) div 1000"

definition day_difference :: "int \<Rightarrow> int \<Rightarrow> int" where
  "day_difference this other = (unix this - unix other + 43200) div 86400"

definition diffDays :: "(string \<Rightarrow> int option) \<Rightarrow> int \<Rightarrow> string option \<Rightarrow> jsval" where
  "diffDays parse this date =
     (case clone parse this date of
        None \<Rightarrow> JStr ''NaN''
      | Some other \<Rightarrow> JStr (show_int (day_difference this other)))"

section \<open>Upstream entities\<close>

text \<open>
  The fields of a disaster as the upstream API returns them: \<open>profile.overview\<close> and
  \<open>glide\<close> may be missing. \<open>type\<close> and \<open>country\<close> are the lists of the names of the
  disaster's types and countries.
\<close>

record disaster_fields =
  f_id :: int
  f_url :: string
  f_name :: string
  f_status :: string
  f_overview :: "string option"
  f_glide :: "string option"
  f_type :: "string list"
  f_country :: "string list"

record disaster =
  d_id :: int
  d_url :: string
  d_name :: string
  d_status :: string
  d_overview :: string
  d_glide :: string
  d_type :: "string list"
  d_country :: "string list"
  d_statusPosition :: int
  d_lastReport :: jsval

text \<open>An entry of \<open>config.lists\<close>.\<close>

record list_config =
  lc_name :: string
  lc_status :: string
  lc_position :: int

definition statusPositions :: "list_config list \<Rightarrow> (string \<times> int) list" where
  "statusPositions cfg = js_Map (map (\<lambda>item. (lc_status item, lc_position item)) cfg)"

text \<open>
  The truncation of \<open>prepareDisaster\<close> and \<open>prepareTopic\<close>; the two differ in the text of the
  link only. An empty or missing text gives the empty string.
\<close>

definition truncate_paragraphs :: "string \<Rightarrow> string \<Rightarrow> string \<Rightarrow> string" where
  "truncate_paragraphs link_text url body =
     (if body \<noteq> [] then
        (let paragraphs = split_blank body in
         if length paragraphs > 3
         then ''...'' @ nl2 @
              trim (join nl2 (slice_last 4 (paragraphs @ [''['' @ link_text @ '']('' @ url @ '')''])))
         else body)
      else [])"

definition prepareDisaster :: "list_config list \<Rightarrow> disaster_fields \<Rightarrow> disaster" where
  "prepareDisaster cfg f =
     \<lparr> d_id = f_id f,
       d_url = https_to_http (f_url f),
       d_name = f_name f,
       d_status = f_status f,
       d_overview = (case f_overview f of None \<Rightarrow> []
                     | Some overview \<Rightarrow> truncate_paragraphs ''Read full description'' (f_url f) overview),
       d_glide = (case f_glide f of None \<Rightarrow> [] | Some g \<Rightarrow> g),
       d_type = f_type f,
       d_country = f_country f,
       d_statusPosition = (case map_of (statusPositions cfg) (f_status f) of None \<Rightarrow> 0 | Some p \<Rightarrow> p),
       d_lastReport = JUndefined \<rparr>"


text \<open>
  The update of \<open>lastReport\<close> in \<open>getExtraDisasterData\<close>. \<open>results\<close> are the facets of the
  reply (the keys of an object are distinct), each with the dates of its data in their
  order. For a key that contains \<open>-day\<close>, the key without its last four characters is
  looked up in \<open>disasterMap\<close>, where the last disaster with an identifier stands; the
  data of the facet decide the value, and the facet \<open><id>-year\<close> when they are empty.
\<close>

definition lastReportFromDays :: "jsval \<Rightarrow> jsval" where
  "lastReportFromDays days =
     (if js_gt days 60 then JNum 61
      else if js_gt days 30 then JNum 31
      else if js_gt days 7 then JNum 8
      else days)"

definition updateLastReport ::
    "(string \<Rightarrow> int option) \<Rightarrow> int \<Rightarrow> (string \<times> string list) list \<Rightarrow> string \<Rightarrow> string list
       \<Rightarrow> disaster \<Rightarrow> disaster" where
  "updateLastReport parse now results ident facetDay d =
     (case facetDay of
        v # _ \<Rightarrow> d\<lparr>d_lastReport := lastReportFromDays (diffDays parse now (Some v))\<rparr>
      | [] \<Rightarrow>
          (case map_of results (ident @ ''-year'') of
             Some (y # _) \<Rightarrow> d\<lparr>d_lastReport := JNum 61\<rparr>
           | _ \<Rightarrow> d))"

fun update_last_match :: "('a \<Rightarrow> bool) \<Rightarrow> ('a \<Rightarrow> 'a) \<Rightarrow> 'a list \<Rightarrow> 'a list" where
  "update_last_match P f [] = []"
| "update_last_match P f (x # xs) =
     (if list_ex P xs then x # update_last_match P f xs
      else if P x then f x # xs else x # xs)"

definition getExtraDisasterData ::
    "(string \<Rightarrow> int option) \<Rightarrow> int \<Rightarrow> (string \<times> string list) list \<Rightarrow> disaster list \<Rightarrow> disaster list" where
  "getExtraDisasterData parse now results disasters =
     fold (\<lambda>(key, facetDay) ds.
             if indexOf key ''-day'' \<noteq> None
             then (let ident = take (length key - 4) key
                   in update_last_match (\<lambda>d. show_int (d_id d) = ident)
                        (updateLastReport parse now results ident facetDay) ds)
             else ds)
          results disasters"

text \<open>
  \<open>sortDisasters\<close> and \<open>sortTopics\<close>. \<open>Array.prototype.sort\<close> is stable; it is modelled as
  an insertion sort with the comparator. The comparator reads the property \<open>pos\<close> of the
  two entities. No entity has this property: it is not among the fields requested from
  the API, and \<open>prepareDisaster\<close> and \<open>prepareTopic\<close> store the position of the status list
  as \<open>statusPosition\<close>. The read gives \<open>undefined\<close>.
\<close>

definition entity_pos :: "'a \<Rightarrow> jsval" where
  "entity_pos e = JUndefined"

definition compare_entities :: "jsval \<Rightarrow> int \<Rightarrow> jsval \<Rightarrow> int \<Rightarrow> int" where
  "compare_entities a_pos a_id b_pos b_id =
     (if a_pos = b_pos then
        (if a_id < b_id then 1 else if a_id > b_id then - 1 else 0)
      else if js_less a_pos b_pos then - 1
      else 1)"

fun insert_by :: "('a \<Rightarrow> 'a \<Rightarrow> int) \<Rightarrow> 'a \<Rightarrow> 'a list \<Rightarrow> 'a list" where
  "insert_by cmp x [] = [x]"
| "insert_by cmp x (y # ys) = (if cmp x y \<le> 0 then x # y # ys else y # insert_by cmp x ys)"

definition sort_by :: "('a \<Rightarrow> 'a \<Rightarrow> int) \<Rightarrow> 'a list \<Rightarrow> 'a list" where
  "sort_by cmp xs = foldr (insert_by cmp) xs []"

definition sortDisasters :: "disaster list \<Rightarrow> disaster list" where
  "sortDisasters disasters =
     sort_by (\<lambda>a b. compare_entities (entity_pos a) (d_id a) (entity_pos b) (d_id b)) disasters"

section \<open>The board\<close>

record label =
  l_id :: string
  l_name :: string

record board_list =
  bl_id :: string
  bl_name :: string

record check_item =
  ci_id :: string
  ci_name :: string
  ci_pos :: rat

record checklist =
  cl_id :: string
  cl_name :: string
  cl_checkItems :: "check_item list"

text \<open>
  A card of the board. The fields after \<open>c_checklists\<close> are those that \<open>prepareCard\<close> adds
  to the card; \<open>None\<close> is a property that was not set.
\<close>

record card =
  c_id :: string
  c_name :: string
  c_idList :: string
  c_pos :: rat
  c_closed :: bool
  c_desc :: string
  c_labels :: "label list"
  c_attachments :: "string list"
  c_checklists :: "checklist list"
  c_profileUpdate :: "string option"
  c_profile :: "string option"
  c_glide :: "string option"
  c_lastUpdate :: "string option"
  c_introduction :: "string option"
  c_description :: "string option"

text \<open>
  The calls that change the board: \<open>PutCard id data\<close> is \<open>PUT /cards/<id>\<close>,
  \<open>DeleteCardLabel card label\<close> is \<open>DELETE /cards/<card>/idLabels/<label>\<close>,
  \<open>PostCardLabel card label\<close> is \<open>POST /cards/<card>/idLabels\<close>, \<open>PostCard data\<close> is
  \<open>POST /cards\<close>, \<open>PostAttachment card url\<close> is \<open>POST /cards/<card>/attachments\<close>,
  \<open>PostChecklist card name\<close> is \<open>POST /cards/<card>/checklists\<close>,
  \<open>PostCheckItem checklist name pos\<close> is \<open>POST /checklists/<checklist>/checkItems\<close>,
  \<open>PutCheckItem card checklist item name pos\<close> is
  \<open>PUT /cards/<card>/checklist/<checklist>/checkItem/<item>\<close> and
  \<open>DeleteCheckItem checklist item\<close> is \<open>DELETE /checklists/<checklist>/checkItems/<item>\<close>.

  A function of type \<open>reply\<close> is the board service: \<open>None\<close> when the call fails (the
  client throws), otherwise the \<open>id\<close> of the object in the reply. The connectors catch
  the failure of a call around the call; only the reply to the creation of a card and
  of a checklist decides which calls follow. The model records the calls; the log lines
  and the flags and counters that only feed them are left out.
\<close>

datatype call =
    PutCard string "(string \<times> jsval) list"
  | DeleteCardLabel string string
  | PostCardLabel string string
  | PostCard "(string \<times> jsval) list"
  | PostAttachment string string
  | PostChecklist string string
  | PostCheckItem string string int
  | PutCheckItem string string string string int
  | DeleteCheckItem string string

type_synonym reply = "call \<Rightarrow> string option"

text \<open>
  The state of a manager during \<open>updateBoard\<close>: \<open>this.lists\<close> (status to list),
  \<open>this.labels\<close> (name to label: the managed labels of the run), the date of the run and
  its text \<open>this.currentDate\<close>, the date constructor, and \<open>config.statuses\<close> of the
  countries connector.
\<close>

record manager =
  m_lists :: "(string \<times> board_list) list"
  m_labels :: "(string \<times> label) list"
  m_now :: int
  m_currentDate :: string
  m_parse :: "string \<Rightarrow> int option"
  m_statuses :: "(string \<times> string) list"

definition maxIndex :: int where
  "maxIndex = 10000000"

text \<open>\<open>Number(parseFloat(pos).toFixed())\<close>: \<open>toFixed\<close> rounds a half away from zero.\<close>

definition round_pos :: "rat \<Rightarrow> int" where
  "round_pos x = (if x < 0 then - \<lfloor>- x + 1 / 2\<rfloor> else \<lfloor>x + 1 / 2\<rfloor>)"

text \<open>The patterns \<open>/^https?:\/\/reliefweb\.int<path>\d+$/\<close> of the cards' attachments.\<close>

definition is_digit :: "char \<Rightarrow> bool" where
  "is_digit c = (digit_val c \<noteq> None)"

definition match_url :: "string \<Rightarrow> string \<Rightarrow> bool" where
  "match_url path u =
     (let rest = (if starts_with ''https://'' u then Some (drop 8 u)
                  else if starts_with ''http://'' u then Some (drop 7 u)
                  else None)
      in case rest of
           None \<Rightarrow> False
         | Some r \<Rightarrow>
             starts_with (''reliefweb.int'' @ path) r \<and>
             drop (length (''reliefweb.int'' @ path)) r \<noteq> [] \<and>
             list_all is_digit (drop (length (''reliefweb.int'' @ path)) r))"

text \<open>
  The loops that fill a map of labels (name to label id): for the names of an entity,
  \<open>const label = this.labels.get(name); if (label) labels.set(name, label.id)\<close>, and for
  a fixed label, \<open>labels.set(label.name, label.id)\<close>.
\<close>

definition add_named_labels ::
    "(string \<times> label) list \<Rightarrow> string list \<Rightarrow> (string \<times> string) list \<Rightarrow> (string \<times> string) list" where
  "add_named_labels managed names labels =
     fold (\<lambda>name acc. case map_of managed name of
                         None \<Rightarrow> acc
                       | Some label \<Rightarrow> AList.update name (l_id label) acc) names labels"

definition set_label ::
    "(string \<times> label) list \<Rightarrow> string \<Rightarrow> (string \<times> string) list \<Rightarrow> (string \<times> string) list" where
  "set_label managed key labels =
     (case map_of managed key of
        None \<Rightarrow> labels
      | Some label \<Rightarrow> AList.update (l_name label) (l_id label) labels)"

text \<open>The second loop of \<open>updateCardLabels\<close>: one call for each label left in the map.\<close>

definition addNewLabels :: "string \<Rightarrow> (string \<times> string) list \<Rightarrow> call list" where
  "addNewLabels card_id labels = map (\<lambda>(name, ident). PostCardLabel card_id ident) labels"

text \<open>
  The first loop of \<open>updateCardLabels\<close> in the topics and the countries connector: a label
  of the card that is not wanted is removed when \<open>this.labels\<close> has its name; a label
  that is wanted is taken out of the map. The result is the calls and the map that is
  left.
\<close>

fun removeManagedLabels ::
    "(string \<times> label) list \<Rightarrow> string \<Rightarrow> label list \<Rightarrow> (string \<times> string) list
       \<Rightarrow> call list \<times> (string \<times> string) list" where
  "removeManagedLabels managed card_id [] labels = ([], labels)"
| "removeManagedLabels managed card_id (label # rest) labels =
     (if \<not> map_has labels (l_name label) then
        (if map_has managed (l_name label)
         then (let (calls, left) = removeManagedLabels managed card_id rest labels
               in (DeleteCardLabel card_id (l_id label) # calls, left))
         else removeManagedLabels managed card_id rest labels)
      else removeManagedLabels managed card_id rest (AList.delete (l_name label) labels))"


section \<open>The disasters connector\<close>

definition profileUpdateHeader :: string where
  "profileUpdateHeader = ''# Last Profile Update'' @ nl2"

definition profileHeader :: string where
  "profileHeader = nl2 @ ''# Profile'' @ nl2"

definition glideHeader :: string where
  "glideHeader = nl2 @ ''# Glide Number'' @ nl2"

definition disaster_urlPattern :: "string \<Rightarrow> bool" where
  "disaster_urlPattern u = match_url ''/taxonomy/term/'' u"

definition disaster_prepareCard :: "card \<Rightarrow> card" where
  "disaster_prepareCard crd =
     (if c_desc crd \<noteq> [] then
        (case (lastIndexOf (c_desc crd) profileUpdateHeader,
               lastIndexOf (c_desc crd) profileHeader,
               lastIndexOf (c_desc crd) glideHeader) of
           (Some i1, Some i2, Some i3) \<Rightarrow>
             crd\<lparr> c_profileUpdate := Some (substring (c_desc crd) (i1 + length profileUpdateHeader) i2),
                   c_profile := Some (substring (c_desc crd) (i2 + length profileHeader) i3),
                   c_glide := Some (drop (i3 + length glideHeader) (c_desc crd)) \<rparr>
         | _ \<Rightarrow> crd)
      else crd)"

definition getDisasterLabels :: "manager \<Rightarrow> disaster \<Rightarrow> (string \<times> string) list" where
  "getDisasterLabels m d =
     (let labels = add_named_labels (m_labels m) (d_type d) [];
          labels = add_named_labels (m_labels m) (d_country d) labels
      in if js_gt (d_lastReport d) 60 then set_label (m_labels m) ''Last Report > 2 Months'' labels
         else if js_gt (d_lastReport d) 30 then set_label (m_labels m) ''Last Report > 1 Month'' labels
         else if js_gt (d_lastReport d) 7 then set_label (m_labels m) ''Last Report > 1 Week'' labels
         else labels)"

text \<open>\<open>getProfileUpdateLabel\<close> of the disasters and of the countries connector.\<close>

definition getProfileUpdateLabel :: "manager \<Rightarrow> string option \<Rightarrow> (string \<times> string) list" where
  "getProfileUpdateLabel m lastUpdate =
     (let days = diffDays (m_parse m) (m_now m) lastUpdate
      in if js_gt days 21 then set_label (m_labels m) ''Profile Update > 3 Weeks'' []
         else if js_gt days 14 then set_label (m_labels m) ''Profile Update > 2 Weeks'' []
         else if js_gt days 7 then set_label (m_labels m) ''Profile Update > 1 Weeks'' []
         else [])"

definition disaster_generateCardDescription :: "manager \<Rightarrow> disaster \<Rightarrow> string option \<Rightarrow> string" where
  "disaster_generateCardDescription m d updateDate =
     profileUpdateHeader @
     (case updateDate of None \<Rightarrow> m_currentDate m
      | Some u \<Rightarrow> if u = [] then m_currentDate m else u) @
     profileHeader @ d_overview d @ glideHeader @ d_glide d"

text \<open>
  The first loop of \<open>updateCardLabels\<close> in the disasters connector: every label of the
  card that is not wanted is removed.
\<close>

fun disaster_removeOldLabels ::
    "string \<Rightarrow> label list \<Rightarrow> (string \<times> string) list \<Rightarrow> call list \<times> (string \<times> string) list" where
  "disaster_removeOldLabels card_id [] labels = ([], labels)"
| "disaster_removeOldLabels card_id (label # rest) labels =
     (if \<not> map_has labels (l_name label)
      then (let (calls, left) = disaster_removeOldLabels card_id rest labels
            in (DeleteCardLabel card_id (l_id label) # calls, left))
      else disaster_removeOldLabels card_id rest (AList.delete (l_name label) labels))"

definition disaster_updateCardLabels :: "manager \<Rightarrow> card \<Rightarrow> disaster \<Rightarrow> call list" where
  "disaster_updateCardLabels m crd d =
     (let labels = js_Map (getDisasterLabels m d @ getProfileUpdateLabel m (c_profileUpdate crd));
          (removed, left) = disaster_removeOldLabels (c_id crd) (c_labels crd) labels
      in removed @ addNewLabels (c_id crd) left)"

text \<open>
  \<open>updateCard\<close>. \<open>this.lists.get(disaster.status).id\<close> throws when \<open>this.lists\<close> has no list
  for the status: the result is \<open>None\<close>, and no call was made before. \<open>disaster_updateData\<close>
  is the map \<open>data\<close> of the fields to write, \<open>disaster_touch\<close> the assignment to
  \<open>card.profileUpdate\<close>.
\<close>

definition disaster_updateData :: "manager \<Rightarrow> board_list \<Rightarrow> int \<Rightarrow> card \<Rightarrow> disaster \<Rightarrow> (string \<times> jsval) list" where
  "disaster_updateData m lst position crd d =
     (let data = [];
          data = (if c_idList crd \<noteq> bl_id lst
                  then AList.update ''idList'' (JStr (bl_id lst)) data else data);
          data = (if round_pos (c_pos crd) \<noteq> position
                  then AList.update ''pos'' (JNum position) data else data);
          data = (if c_closed crd
                  then AList.update ''closed'' (JStr ''false'') data else data);
          data = (if c_name crd \<noteq> d_name d
                  then AList.update ''name'' (JStr ''disaster.name'') data else data);
          profileUpdate = (if Some (d_overview d) \<noteq> c_profile crd
                           then Some (m_currentDate m) else c_profileUpdate crd);
          data = (if Some (d_overview d) \<noteq> c_profile crd \<or> Some (d_glide d) \<noteq> c_glide crd
                  then AList.update ''desc'' (JStr (disaster_generateCardDescription m d profileUpdate)) data
                  else data)
      in data)"

definition disaster_touch :: "manager \<Rightarrow> card \<Rightarrow> disaster \<Rightarrow> card" where
  "disaster_touch m crd d =
     (if Some (d_overview d) \<noteq> c_profile crd
      then crd\<lparr>c_profileUpdate := Some (m_currentDate m)\<rparr> else crd)"

definition disaster_updateCard :: "manager \<Rightarrow> int \<Rightarrow> card \<Rightarrow> disaster \<Rightarrow> call list option" where
  "disaster_updateCard m position crd d =
     (case map_of (m_lists m) (d_status d) of
        None \<Rightarrow> None
      | Some lst \<Rightarrow>
          (let data = disaster_updateData m lst position crd d;
               calls = disaster_updateCardLabels m (disaster_touch m crd d) d
           in Some (calls @ (if data \<noteq> [] then [PutCard (c_id crd) data] else []))))"

text \<open>
  \<open>createCard\<close>: \<open>disaster_createData\<close> is the object \<open>data\<close> of the new card. When the
  creation of the card fails the function returns, otherwise the URL of the disaster is
  attached to the new card.
\<close>

definition disaster_createData :: "manager \<Rightarrow> board_list \<Rightarrow> int \<Rightarrow> disaster \<Rightarrow> (string \<times> jsval) list" where
  "disaster_createData m lst position d =
     [(''idList'', JStr (bl_id lst)),
      (''urlSource'', JStr []),
      (''name'', JStr (d_name d)),
      (''desc'', JStr (disaster_generateCardDescription m d None)),
      (''pos'', JNum position),
      (''idLabels'', JStr (join '','' (map snd (getDisasterLabels m d))))]"

definition disaster_createCard :: "manager \<Rightarrow> reply \<Rightarrow> int \<Rightarrow> disaster \<Rightarrow> call list option" where
  "disaster_createCard m board position d =
     (case map_of (m_lists m) (d_status d) of
        None \<Rightarrow> None
      | Some lst \<Rightarrow>
          (let data = disaster_createData m lst position d
           in case board (PostCard data) of
                None \<Rightarrow> Some [PostCard data]
              | Some card_id \<Rightarrow> Some [PostCard data, PostAttachment card_id (d_url d)]))"

definition archiveCard :: "card \<Rightarrow> call list" where
  "archiveCard crd = (if \<not> c_closed crd then [PutCard (c_id crd) [(''closed'', JStr ''true'')]] else [])"

text \<open>
  \<open>updateBoard\<close>. \<open>matchCards\<close> is the first loop, the map from the first matching
  attachment of a card to the prepared card. \<open>disaster_process\<close> is the loop over the
  disasters: it gives the calls made and the cards left in the map, or \<open>None\<close> in their
  place when an exception ended the run. The last step archives the cards that are
  left, those in a list of \<open>this.lists\<close>.
\<close>

definition matchCards :: "(string \<Rightarrow> bool) \<Rightarrow> (card \<Rightarrow> card) \<Rightarrow> card list \<Rightarrow> (string \<times> card) list" where
  "matchCards urlPattern prepareCard cards =
     fold (\<lambda>crd acc. case find urlPattern (c_attachments crd) of
                         None \<Rightarrow> acc
                       | Some url \<Rightarrow> AList.update url (prepareCard crd) acc) cards []"

fun disaster_process ::
    "manager \<Rightarrow> reply \<Rightarrow> (string \<times> card) list \<Rightarrow> disaster list
       \<Rightarrow> call list \<times> (string \<times> card) list option" where
  "disaster_process m board cards [] = ([], Some cards)"
| "disaster_process m board cards (d # ds) =
     (let position = maxIndex - d_id d in
      case map_of cards (d_url d) of
        Some crd \<Rightarrow>
          (case disaster_updateCard m position crd d of
             None \<Rightarrow> ([], None)
           | Some calls \<Rightarrow>
               (let (more, left) = disaster_process m board (AList.delete (d_url d) cards) ds
                in (calls @ more, left)))
      | None \<Rightarrow>
          (case disaster_createCard m board position d of
             None \<Rightarrow> ([], None)
           | Some calls \<Rightarrow>
               (let (more, left) = disaster_process m board cards ds
                in (calls @ more, left))))"

definition disaster_archive :: "manager \<Rightarrow> (string \<times> card) list \<Rightarrow> call list" where
  "disaster_archive m cards =
     (let by_id = js_Map (map (\<lambda>(status, lst). (bl_id lst, bl_name lst)) (m_lists m))
      in concat (map (\<lambda>(url, crd). if map_has by_id (c_idList crd) then archiveCard crd else []) cards))"

definition disaster_updateBoard :: "manager \<Rightarrow> reply \<Rightarrow> card list \<Rightarrow> disaster list \<Rightarrow> call list \<times> bool" where
  "disaster_updateBoard m board board_cards disasters =
     (case disaster_process m board (matchCards disaster_urlPattern disaster_prepareCard board_cards) disasters of
        (calls, None) \<Rightarrow> (calls, False)
      | (calls, Some left) \<Rightarrow> (calls @ disaster_archive m left, True))"


section \<open>The topics connector\<close>

text \<open>
  The fields of a topic as the upstream API returns them. \<open>tf_changed\<close> is
  \<open>date.changed\<close>. \<open>tf_resources\<close> are the matches of \<open>resourcePattern\<close> in the field
  \<open>resources-html\<close>, each with its two groups (the address and the text of a link). A
  missing list is the empty list.
\<close>

record river =
  r_id :: string
  r_url :: string
  r_title :: string

record topic_fields =
  tf_id :: int
  tf_url :: string
  tf_title :: string
  tf_status :: string
  tf_featured :: bool
  tf_introduction :: "string option"
  tf_changed :: string
  tf_rivers :: "river list"
  tf_resources :: "(string \<times> string) list"
  tf_disaster_type :: "string list"
  tf_theme :: "string list"

text \<open>A wanted item of a checklist.\<close>

record item =
  it_url :: string
  it_title :: string
  it_name :: string
  it_position :: int

record topic =
  t_id :: int
  t_url :: string
  t_title :: string
  t_status :: string
  t_featured :: bool
  t_introduction :: string
  t_changed :: string
  t_lastUpdate :: string
  t_statusPosition :: int
  t_disaster_type :: "string list"
  t_theme :: "string list"
  t_checklists :: "(string \<times> (string \<times> item) list) list"

definition generateMarkdownLink :: "string \<Rightarrow> string \<Rightarrow> string" where
  "generateMarkdownLink url title = ''['' @ title @ '']('' @ url @ '')''"

definition addRiver ::
    "river \<Rightarrow> (string \<times> item) list \<times> (string \<times> item) list
       \<Rightarrow> (string \<times> item) list \<times> (string \<times> item) list" where
  "addRiver r acc =
     (case acc of (rivers, sections) \<Rightarrow>
        if indexOf (r_id r) ''section-'' = Some 0
        then (rivers,
              AList.update (r_url r)
                \<lparr> it_url = r_url r, it_title = r_title r,
                  it_name = generateMarkdownLink (r_url r) (r_title r),
                  it_position = int (length sections) + 1 \<rparr> sections)
        else (AList.update (r_url r)
                \<lparr> it_url = r_url r, it_title = r_title r,
                  it_name = generateMarkdownLink (r_url r) (r_title r),
                  it_position = int (length rivers) + 1 \<rparr> rivers,
              sections))"

definition addResource :: "string \<times> string \<Rightarrow> (string \<times> item) list \<Rightarrow> (string \<times> item) list" where
  "addResource match resources =
     (let url = trim (fst match); title = trim (snd match)
      in AList.update url
           \<lparr> it_url = url, it_title = (if title = [] then url else title),
             it_name = generateMarkdownLink url title,
             it_position = int (length resources) + 1 \<rparr> resources)"

text \<open>
  \<open>prepareTopic\<close>. \<open>fmt\<close> stands for \<open>format('D MMM YYYY hh:mm:ss UTC')\<close> of a date.
\<close>

definition prepareTopic ::
    "list_config list \<Rightarrow> (string \<Rightarrow> int option) \<Rightarrow> int \<Rightarrow> (int option \<Rightarrow> string) \<Rightarrow> topic_fields \<Rightarrow> topic" where
  "prepareTopic cfg parse now fmt f =
     (let (rivers, sections) = fold addRiver (tf_rivers f) ([], []);
          resources = fold addResource (tf_resources f) []
      in \<lparr> t_id = tf_id f,
           t_url = tf_url f,
           t_title = tf_title f,
           t_status = tf_status f,
           t_featured = tf_featured f,
           t_introduction = (case tf_introduction f of None \<Rightarrow> []
                             | Some introduction \<Rightarrow>
                                 truncate_paragraphs ''Read full introduction'' (tf_url f) introduction),
           t_changed = tf_changed f,
           t_lastUpdate = fmt (clone parse now (Some (tf_changed f))),
           t_statusPosition = (case map_of (statusPositions cfg) (tf_status f) of None \<Rightarrow> 0 | Some p \<Rightarrow> p),
           t_disaster_type = tf_disaster_type f,
           t_theme = tf_theme f,
           t_checklists = [(''Rivers'', rivers), (''Sections'', sections), (''Resources'', resources)] \<rparr>)"

definition sortTopics :: "topic list \<Rightarrow> topic list" where
  "sortTopics topics =
     sort_by (\<lambda>a b. compare_entities (entity_pos a) (t_id a) (entity_pos b) (t_id b)) topics"

definition lastUpdateHeader :: string where
  "lastUpdateHeader = ''# Last Update'' @ nl2"

definition introductionHeader :: string where
  "introductionHeader = nl2 @ ''# Introduction'' @ nl2"

definition topic_urlPattern :: "string \<Rightarrow> bool" where
  "topic_urlPattern u = match_url ''/node/'' u"

definition topic_prepareCard :: "card \<Rightarrow> card" where
  "topic_prepareCard crd =
     (if c_desc crd \<noteq> [] then
        (case (lastIndexOf (c_desc crd) lastUpdateHeader,
               lastIndexOf (c_desc crd) introductionHeader) of
           (Some i1, Some i2) \<Rightarrow>
             crd\<lparr> c_lastUpdate := Some (substring (c_desc crd) (i1 + length lastUpdateHeader) i2),
                   c_introduction := Some (drop (i2 + length introductionHeader) (c_desc crd)),
                   c_desc := substring (c_desc crd) 0 i1 \<rparr>
         | _ \<Rightarrow> crd)
      else crd)"

text \<open>
  \<open>getTopicLabels\<close>; \<open>lst\<close> is \<open>this.lists.get(topic.status)\<close>, which the callers look up.
\<close>

definition getTopicLabels :: "manager \<Rightarrow> board_list \<Rightarrow> topic \<Rightarrow> (string \<times> string) list" where
  "getTopicLabels m lst t =
     (let labels = add_named_labels (m_labels m) (t_disaster_type t) [];
          labels = add_named_labels (m_labels m) (t_theme t) labels;
          labels = (if t_featured t then set_label (m_labels m) ''Featured'' labels else labels);
          labels = set_label (m_labels m) (bl_name lst) labels;
          days = diffDays (m_parse m) (m_now m) (Some (t_changed t))
      in if js_gt days 60 then set_label (m_labels m) ''Last Update > 2 Months'' labels
         else if js_gt days 30 then set_label (m_labels m) ''Last Update > 1 Month'' labels
         else if js_gt days 7 then set_label (m_labels m) ''Last Update > 1 Week'' labels
         else labels)"

definition topic_generateCardDescription :: "string \<Rightarrow> string \<Rightarrow> string \<Rightarrow> string" where
  "topic_generateCardDescription description updateDate introduction =
     description @ lastUpdateHeader @ updateDate @ introductionHeader @ introduction"

definition topic_updateCardLabels :: "manager \<Rightarrow> board_list \<Rightarrow> card \<Rightarrow> topic \<Rightarrow> call list" where
  "topic_updateCardLabels m lst crd t =
     (let labels = getTopicLabels m lst t;
          (removed, left) = removeManagedLabels (m_labels m) (c_id crd) (c_labels crd) labels
      in removed @ addNewLabels (c_id crd) left)"

definition addCheckItem :: "string \<Rightarrow> item \<Rightarrow> call" where
  "addCheckItem checklist_id i = PostCheckItem checklist_id (it_name i) (it_position i)"

definition updateCheckItem :: "string \<Rightarrow> string \<Rightarrow> string \<Rightarrow> item \<Rightarrow> call" where
  "updateCheckItem card_id checklist_id ident i =
     PutCheckItem card_id checklist_id ident (it_name i) (it_position i)"

text \<open>
  \<open>addChecklist\<close>: when the creation of the checklist fails the items are not added.
\<close>

definition addChecklist :: "reply \<Rightarrow> string \<Rightarrow> string \<Rightarrow> (string \<times> item) list \<Rightarrow> call list" where
  "addChecklist board card_id name items =
     (case board (PostChecklist card_id name) of
        None \<Rightarrow> [PostChecklist card_id name]
      | Some checklist_id \<Rightarrow>
          PostChecklist card_id name # map (\<lambda>(url, i). addCheckItem checklist_id i) items)"

text \<open>
  The first loop of \<open>updateChecklist\<close>, over the items of the checklist on the board: the
  calls, and the wanted items that are left. An item of the board whose name has \<open>](\<close>
  after its first character is split there into a title and an address.
\<close>

fun updateCheckItems ::
    "string \<Rightarrow> string \<Rightarrow> check_item list \<Rightarrow> (string \<times> item) list \<Rightarrow> call list \<times> (string \<times> item) list" where
  "updateCheckItems card_id checklist_id [] items = ([], items)"
| "updateCheckItems card_id checklist_id (checkitem # rest) items =
     (if (case indexOf (ci_name checkitem) '']('' of None \<Rightarrow> False | Some i \<Rightarrow> 0 < i) then
        (case split_link (ci_name checkitem) of
           p0 # p1 # _ \<Rightarrow>
             (let title = drop 1 p0; url = butlast p1 in
              case map_of items url of
                Some i \<Rightarrow>
                  (let (calls, left) = updateCheckItems card_id checklist_id rest (AList.delete url items)
                   in ((if it_title i \<noteq> title \<or> of_int (it_position i) \<noteq> ci_pos checkitem
                        then [updateCheckItem card_id checklist_id (ci_id checkitem) i] else []) @ calls,
                       left))
              | None \<Rightarrow>
                  (let (calls, left) = updateCheckItems card_id checklist_id rest items
                   in (DeleteCheckItem checklist_id (ci_id checkitem) # calls, left)))
         | _ \<Rightarrow> updateCheckItems card_id checklist_id rest items)
      else updateCheckItems card_id checklist_id rest items)"

definition updateChecklist :: "string \<Rightarrow> checklist \<Rightarrow> (string \<times> item) list \<Rightarrow> call list" where
  "updateChecklist card_id cl items =
     (let (calls, left) = updateCheckItems card_id (cl_id cl) (cl_checkItems cl) items
      in calls @ map (\<lambda>(url, i). addCheckItem (cl_id cl) i) left)"

definition updateCardChecklists :: "reply \<Rightarrow> string \<Rightarrow> checklist list \<Rightarrow> topic \<Rightarrow> call list" where
  "updateCardChecklists board card_id card_checklists t =
     (let checklists = js_Map (map (\<lambda>cl. (cl_name cl, cl)) card_checklists)
      in concat (map (\<lambda>(name, items).
                        case map_of checklists name of
                          None \<Rightarrow> addChecklist board card_id name items
                        | Some cl \<Rightarrow> updateChecklist card_id cl items) (t_checklists t)))"

text \<open>
  \<open>updateCard\<close>. \<open>managedList\<close> says whether the card is in a list of \<open>this.lists\<close>. A status
  without a list in \<open>this.lists\<close> makes the function throw before any call, either in
  the test of the list of the card or in \<open>getTopicLabels\<close>.
\<close>

definition managedList :: "manager \<Rightarrow> card \<Rightarrow> bool" where
  "managedList m crd = list_ex (\<lambda>(status, lst). c_idList crd = bl_id lst) (m_lists m)"

definition topic_updateData :: "manager \<Rightarrow> board_list \<Rightarrow> int \<Rightarrow> card \<Rightarrow> topic \<Rightarrow> (string \<times> jsval) list" where
  "topic_updateData m lst position crd t =
     (let data = [];
          data = (if managedList m crd \<and> c_idList crd \<noteq> bl_id lst
                  then AList.update ''idList'' (JStr (bl_id lst)) data else data);
          data = (if managedList m crd \<and> round_pos (c_pos crd) \<noteq> position
                  then AList.update ''pos'' (JNum position) data else data);
          data = (if c_closed crd
                  then AList.update ''closed'' (JStr ''false'') data else data);
          data = (if c_name crd \<noteq> t_title t
                  then AList.update ''name'' (JStr (t_title t)) data else data);
          data = (if Some (t_introduction t) \<noteq> c_introduction crd \<or> Some (t_lastUpdate t) \<noteq> c_lastUpdate crd
                  then AList.update ''desc''
                         (JStr (topic_generateCardDescription (c_desc crd) (t_lastUpdate t) (t_introduction t))) data
                  else data)
      in data)"

definition topic_updateCard :: "manager \<Rightarrow> reply \<Rightarrow> int \<Rightarrow> card \<Rightarrow> topic \<Rightarrow> call list option" where
  "topic_updateCard m board position crd t =
     (case map_of (m_lists m) (t_status t) of
        None \<Rightarrow> None
      | Some lst \<Rightarrow>
          (let data = topic_updateData m lst position crd t
           in Some (topic_updateCardLabels m lst crd t @
                    updateCardChecklists board (c_id crd) (c_checklists crd) t @
                    (if data \<noteq> [] then [PutCard (c_id crd) data] else []))))"

text \<open>
  \<open>createCard\<close>. The card in the reply to \<open>POST /cards\<close> is new and has no checklists, so
  \<open>updateCardChecklists\<close> adds each checklist of the topic.
\<close>

definition topic_createData :: "manager \<Rightarrow> board_list \<Rightarrow> int \<Rightarrow> topic \<Rightarrow> (string \<times> jsval) list" where
  "topic_createData m lst position t =
     [(''idList'', JStr (bl_id lst)),
      (''urlSource'', JStr []),
      (''name'', JStr (t_title t)),
      (''desc'', JStr (topic_generateCardDescription [] (t_lastUpdate t) (t_introduction t))),
      (''pos'', JNum position),
      (''idLabels'', JStr (join '','' (map snd (getTopicLabels m lst t))))]"

definition topic_createCard :: "manager \<Rightarrow> reply \<Rightarrow> int \<Rightarrow> topic \<Rightarrow> call list option" where
  "topic_createCard m board position t =
     (case map_of (m_lists m) (t_status t) of
        None \<Rightarrow> None
      | Some lst \<Rightarrow>
          (let data = topic_createData m lst position t
           in case board (PostCard data) of
                None \<Rightarrow> Some [PostCard data]
              | Some card_id \<Rightarrow>
                  Some (PostCard data # PostAttachment card_id (t_url t) #
                        updateCardChecklists board card_id [] t)))"

text \<open>
  \<open>updateBoard\<close>: a matched card stays in the map, and no card is archived. The result
  is the calls made, and whether the run came to its end.
\<close>

fun topic_process :: "manager \<Rightarrow> reply \<Rightarrow> (string \<times> card) list \<Rightarrow> topic list \<Rightarrow> call list \<times> bool" where
  "topic_process m board cards [] = ([], True)"
| "topic_process m board cards (t # ts) =
     (let position = maxIndex - t_id t in
      case (case map_of cards (t_url t) of
              Some crd \<Rightarrow> topic_updateCard m board position crd t
            | None \<Rightarrow> topic_createCard m board position t) of
        None \<Rightarrow> ([], False)
      | Some calls \<Rightarrow>
          (let (more, finished) = topic_process m board cards ts in (calls @ more, finished)))"

definition topic_updateBoard :: "manager \<Rightarrow> reply \<Rightarrow> card list \<Rightarrow> topic list \<Rightarrow> call list \<times> bool" where
  "topic_updateBoard m board board_cards topics =
     topic_process m board (matchCards topic_urlPattern topic_prepareCard board_cards) topics"

section \<open>The countries connector\<close>

record country_fields =
  cf_id :: int
  cf_url :: string
  cf_name :: string
  cf_shortname :: string
  cf_iso3 :: string
  cf_status :: string
  cf_description :: "string option"

text \<open>
  A country. A missing \<open>iso3\<close> or \<open>shortname\<close> is the empty string: the connector only
  asks whether the field is set and not empty.
\<close>

record country =
  co_id :: int
  co_url :: string
  co_name :: string
  co_shortname :: string
  co_iso3 :: string
  co_status :: string
  co_description :: string

definition prepareCountry :: "country_fields \<Rightarrow> country" where
  "prepareCountry f =
     \<lparr> co_id = cf_id f,
       co_url = https_to_http (cf_url f),
       co_name = cf_name f,
       co_shortname = cf_shortname f,
       co_iso3 = cf_iso3 f,
       co_status = cf_status f,
       co_description = (case cf_description f of None \<Rightarrow> [] | Some x \<Rightarrow> x) \<rparr>"

definition country_urlPattern :: "string \<Rightarrow> bool" where
  "country_urlPattern u = match_url ''/taxonomy/term/'' u"

definition country_prepareCard :: "card \<Rightarrow> card" where
  "country_prepareCard crd =
     (if c_desc crd \<noteq> [] then
        (case lastIndexOf (c_desc crd) profileUpdateHeader of
           Some i1 \<Rightarrow>
             (case lastIndexOf (c_desc crd) profileHeader of
                Some i2 \<Rightarrow>
                  crd\<lparr> c_profileUpdate :=
                          Some (trim (substring (c_desc crd) (i1 + length profileUpdateHeader) i2)),
                        c_description := Some (drop (i2 + length profileHeader) (c_desc crd)) \<rparr>
              | None \<Rightarrow>
                  crd\<lparr> c_profileUpdate := Some (trim (drop (i1 + length profileUpdateHeader) (c_desc crd))),
                        c_description := Some [] \<rparr>)
         | None \<Rightarrow> crd)
      else crd)"

definition getCountryLabels :: "manager \<Rightarrow> country \<Rightarrow> (string \<times> string) list" where
  "getCountryLabels m co =
     (let labels = [];
          labels = (case map_of (m_labels m) ''Ongoing Situation'' of
                      Some l \<Rightarrow> if map_of (m_statuses m) (co_status co) = Some ''ongoing''
                                then AList.update ''Ongoing Situation'' (l_id l) labels else labels
                    | None \<Rightarrow> labels);
          labels = (case map_of (m_labels m) ''Profile Checked'' of
                      Some l \<Rightarrow> if co_description co \<noteq> []
                                then AList.update ''Profile Checked'' (l_id l) labels else labels
                    | None \<Rightarrow> labels);
          labels = (if co_iso3 co \<noteq> [] then
                      (case map_of (m_labels m) (co_iso3 co) of
                         Some l \<Rightarrow> AList.update (co_iso3 co) (l_id l) labels
                       | None \<Rightarrow> labels)
                    else labels);
          labels = (if co_shortname co \<noteq> [] then
                      (case map_of (m_labels m) (co_shortname co) of
                         Some l \<Rightarrow> AList.update (co_shortname co) (l_id l) labels
                       | None \<Rightarrow> labels)
                    else labels)
      in labels)"

definition country_updateCardLabels :: "manager \<Rightarrow> card \<Rightarrow> country \<Rightarrow> call list" where
  "country_updateCardLabels m crd co =
     (let labels = js_Map (getCountryLabels m co @ getProfileUpdateLabel m (c_profileUpdate crd));
          (removed, left) = removeManagedLabels (m_labels m) (c_id crd) (c_labels crd) labels
      in removed @ addNewLabels (c_id crd) left)"

definition country_generateCardDescription :: "manager \<Rightarrow> country \<Rightarrow> string" where
  "country_generateCardDescription m co =
     profileUpdateHeader @ m_currentDate m @ profileHeader @ co_description co"

definition country_updateData :: "manager \<Rightarrow> card \<Rightarrow> country \<Rightarrow> (string \<times> jsval) list" where
  "country_updateData m crd co =
     (if co_description co \<noteq> [] then
        (if c_description crd \<noteq> Some (co_description co)
         then [(''desc'', JStr (country_generateCardDescription m co))] else [])
      else if c_description crd = Some [] then [(''desc'', JStr [])]
      else [])"

definition country_updateCard :: "manager \<Rightarrow> card \<Rightarrow> country \<Rightarrow> call list" where
  "country_updateCard m crd co =
     (let data = country_updateData m crd co
      in country_updateCardLabels m crd co @
         (if data \<noteq> [] then [PutCard (c_id crd) data] else []))"

text \<open>
  \<open>updateBoard\<close>: the countries that have a card are updated; no card is created and no
  card is archived.
\<close>

definition country_updateBoard :: "manager \<Rightarrow> card list \<Rightarrow> country list \<Rightarrow> call list" where
  "country_updateBoard m board_cards countries =
     (let cards = matchCards country_urlPattern country_prepareCard board_cards
      in concat (map (\<lambda>co. case map_of cards (co_url co) of
                              Some crd \<Rightarrow> country_updateCard m crd co
                            | None \<Rightarrow> []) countries))"


section \<open>Example inputs\<close>

text \<open>Concrete inputs, at which the theorems below are instantiated and the code is run.\<close>

text \<open>
  The run of the examples is at midnight (UTC) of 2 November 2026; \<open>ex_parse\<close> is the
  date constructor on the date strings of the examples.
\<close>

definition ex_now :: int where
  "ex_now = 1793577600000"

definition ex_parse :: "string \<Rightarrow> int option" where
  "ex_parse = map_of
     [(''2 Nov 2026'', 1793577600000),
      (''1 Nov 2026'', 1793491200000),
      (''2026-11-01T00:00:00+00:00'', 1793491200000),
      (''2026-10-28T00:00:00+00:00'', 1793145600000),
      (''1 Oct 2026'', 1790812800000)]"

definition ex_lists :: "list_config list" where
  "ex_lists = [\<lparr>lc_name = ''Alert'', lc_status = ''alert'', lc_position = 1\<rparr>,
               \<lparr>lc_name = ''Ongoing'', lc_status = ''ongoing'', lc_position = 2\<rparr>]"

definition ex_body5 :: string where
  "ex_body5 = ''a'' @ nl2 @ ''b'' @ nl2 @ ''c'' @ nl2 @ ''d'' @ nl2 @ ''e''"

definition ex_fields :: disaster_fields where
  "ex_fields = \<lparr> f_id = 100, f_url = ''https://reliefweb.int/taxonomy/term/100'', f_name = ''Flood'',
       f_status = ''ongoing'', f_overview = Some ''Heavy rain.'', f_glide = Some ''FL-2024-000001'',
       f_type = [''Flood''], f_country = [''Chad''] \<rparr>"

definition ex_topic_fields :: topic_fields where
  "ex_topic_fields = \<lparr> tf_id = 7, tf_url = ''https://reliefweb.int/node/7'', tf_title = ''Cholera'',
       tf_status = ''ongoing'', tf_featured = True, tf_introduction = Some ''About cholera.'',
       tf_changed = ''2026-11-01T00:00:00+00:00'',
       tf_rivers = [\<lparr>r_id = ''river-1'', r_url = ''https://reliefweb.int/updates?x=1'', r_title = ''Updates''\<rparr>],
       tf_resources = [], tf_disaster_type = [''Epidemic''], tf_theme = [''Health''] \<rparr>"

definition ex_disaster :: disaster where
  "ex_disaster = prepareDisaster ex_lists ex_fields"

definition ex_manager :: manager where
  "ex_manager =
     \<lparr> m_lists = [(''alert'', \<lparr>bl_id = ''L1'', bl_name = ''Alert''\<rparr>),
                  (''ongoing'', \<lparr>bl_id = ''L2'', bl_name = ''Ongoing''\<rparr>)],
       m_labels = [(''Flood'', \<lparr>l_id = ''B1'', l_name = ''Flood''\<rparr>),
                   (''Chad'', \<lparr>l_id = ''B2'', l_name = ''Chad''\<rparr>),
                   (''Epidemic'', \<lparr>l_id = ''B3'', l_name = ''Epidemic''\<rparr>),
                   (''Health'', \<lparr>l_id = ''B4'', l_name = ''Health''\<rparr>),
                   (''Featured'', \<lparr>l_id = ''B5'', l_name = ''Featured''\<rparr>),
                   (''Ongoing'', \<lparr>l_id = ''B6'', l_name = ''Ongoing''\<rparr>),
                   (''Drought'', \<lparr>l_id = ''B7'', l_name = ''Drought''\<rparr>)],
       m_now = ex_now,
       m_currentDate = ''2 Nov 2026'',
       m_parse = ex_parse,
       m_statuses = [(''current'', ''ongoing'')] \<rparr>"

definition ex_list :: board_list where
  "ex_list = \<lparr>bl_id = ''L2'', bl_name = ''Ongoing''\<rparr>"

definition ex_card :: card where
  "ex_card =
     \<lparr> c_id = ''C1'', c_name = ''Old name'', c_idList = ''L2'', c_pos = 9999900, c_closed = False,
       c_desc = profileUpdateHeader @ ''1 Nov 2026'' @ profileHeader @ ''Heavy rain.'' @
                glideHeader @ ''FL-2024-000001'',
       c_labels = [\<lparr>l_id = ''B1'', l_name = ''Flood''\<rparr>, \<lparr>l_id = ''B2'', l_name = ''Chad''\<rparr>],
       c_attachments = [''http://reliefweb.int/taxonomy/term/100''],
       c_checklists = [],
       c_profileUpdate = None, c_profile = None, c_glide = None,
       c_lastUpdate = None, c_introduction = None, c_description = None \<rparr>"

definition ex_custom :: label where
  "ex_custom = \<lparr>l_id = ''X1'', l_name = ''Needs review''\<rparr>"

definition ex_drought :: label where
  "ex_drought = \<lparr>l_id = ''B7'', l_name = ''Drought''\<rparr>"

definition ex_topic :: topic where
  "ex_topic = prepareTopic ex_lists ex_parse ex_now (\<lambda>d. ''1 Nov 2026 00:00:00 UTC'') ex_topic_fields"

definition ex_topic_card :: card where
  "ex_topic_card =
     \<lparr> c_id = ''T1'', c_name = ''Cholera'', c_idList = ''L2'', c_pos = 9999993, c_closed = False,
       c_desc = lastUpdateHeader @ ''1 Nov 2026 00:00:00 UTC'' @ introductionHeader @ ''About cholera.'',
       c_labels = [ex_drought, ex_custom],
       c_attachments = [''https://reliefweb.int/node/7''],
       c_checklists = [],
       c_profileUpdate = None, c_profile = None, c_glide = None,
       c_lastUpdate = None, c_introduction = None, c_description = None \<rparr>"

definition ex_labelled_card :: card where
  "ex_labelled_card = disaster_prepareCard (ex_card\<lparr>c_labels := c_labels ex_card @ [ex_custom]\<rparr>)"

definition ex_country :: country where
  "ex_country = prepareCountry
     \<lparr> cf_id = 13, cf_url = ''https://reliefweb.int/taxonomy/term/13'', cf_name = ''Chad'',
       cf_shortname = ''Chad'', cf_iso3 = ''tcd'', cf_status = ''current'', cf_description = None \<rparr>"

definition ex_country_card :: card where
  "ex_country_card =
     \<lparr> c_id = ''K1'', c_name = ''Chad'', c_idList = ''L9'', c_pos = 1, c_closed = False,
       c_desc = [],
       c_labels = [ex_drought],
       c_attachments = [''http://reliefweb.int/taxonomy/term/13''],
       c_checklists = [],
       c_profileUpdate = None, c_profile = None, c_glide = None,
       c_lastUpdate = None, c_introduction = None, c_description = None \<rparr>"

definition ex_moved_card :: card where
  "ex_moved_card = (disaster_prepareCard ex_card)\<lparr>c_idList := ''L9'', c_name := ''Flood''\<rparr>"

definition ex_undated_card :: card where
  "ex_undated_card =
     disaster_prepareCard
       (ex_card\<lparr>c_name := ''Flood'',
                c_desc := profileUpdateHeader @ profileHeader @ ''Heavy rain.'' @ glideHeader @ ''FL-OLD''\<rparr>)"

definition ex_board :: reply where
  "ex_board = (\<lambda>c. Some ''N1'')"

definition ex_parked_topic_card :: card where
  "ex_parked_topic_card = (topic_prepareCard ex_topic_card)\<lparr>c_idList := ''L9'', c_pos := 5\<rparr>"

definition ex_stale_card :: card where
  "ex_stale_card =
     disaster_prepareCard
       (ex_card\<lparr>c_desc := profileUpdateHeader @ ''1 Oct 2026'' @ profileHeader @ ''Old text.'' @
                          glideHeader @ ''FL-2024-000001''\<rparr>)"

definition ex_reglided_card :: card where
  "ex_reglided_card =
     disaster_prepareCard
       (ex_card\<lparr>c_desc := profileUpdateHeader @ ''1 Nov 2026'' @ profileHeader @ ''Heavy rain.'' @
                          glideHeader @ ''FL-OLD''\<rparr>)"

definition ex_alert_disaster :: disaster where
  "ex_alert_disaster =
     prepareDisaster ex_lists
       (ex_fields\<lparr>f_id := 90, f_url := ''https://reliefweb.int/taxonomy/term/90'',
                  f_name := ''Storm'', f_status := ''alert''\<rparr>)"

definition ex_alert_topic :: topic where
  "ex_alert_topic =
     prepareTopic ex_lists ex_parse ex_now (\<lambda>d. ''1 Nov 2026 00:00:00 UTC'')
       (ex_topic_fields\<lparr>tf_id := 5, tf_url := ''https://reliefweb.int/node/5'', tf_status := ''alert''\<rparr>)"

text \<open>
  The effect of \<open>PUT /cards/<id>\<close> on the card of the board, as the board service
  documents it: each field of the update replaces the field of the card.
\<close>

definition board_put :: "(string \<times> jsval) list \<Rightarrow> card \<Rightarrow> card" where
  "board_put data crd =
     crd\<lparr> c_idList := (case map_of data ''idList'' of Some (JStr x) \<Rightarrow> x | _ \<Rightarrow> c_idList crd),
          c_pos := (case map_of data ''pos'' of Some (JNum n) \<Rightarrow> of_int n | _ \<Rightarrow> c_pos crd),
          c_closed := (case map_of data ''closed'' of Some (JStr x) \<Rightarrow> x = ''true'' | _ \<Rightarrow> c_closed crd),
          c_name := (case map_of data ''name'' of Some (JStr x) \<Rightarrow> x | _ \<Rightarrow> c_name crd),
          c_desc := (case map_of data ''desc'' of Some (JStr x) \<Rightarrow> x | _ \<Rightarrow> c_desc crd) \<rparr>"

definition ex_failing_board :: reply where
  "ex_failing_board = (\<lambda>c. None)"

text \<open>The call that archives a card: \<open>PUT /cards/<id>\<close> with \<open>closed\<close> set to \<open>true\<close> alone.\<close>

fun archives :: "call \<Rightarrow> bool" where
  "archives (PutCard card_id data) = (data = [(''closed'', JStr ''true'')])"
| "archives _ = False"

definition ex_away_card :: card where
  "ex_away_card =
     ex_card\<lparr>c_id := ''C2'', c_name := ''Quake'', c_idList := ''L9'',
             c_attachments := [''http://reliefweb.int/taxonomy/term/200'']\<rparr>"

definition ex_alert_list :: board_list where
  "ex_alert_list = \<lparr>bl_id = ''L1'', bl_name = ''Alert''\<rparr>"

definition ex_past_disaster :: disaster where
  "ex_past_disaster = ex_alert_disaster\<lparr>d_id := 80, d_status := ''past''\<rparr>"

definition ex_other_country :: country where
  "ex_other_country = ex_country\<lparr>co_id := 14, co_url := ''http://reliefweb.int/taxonomy/term/14'',
                                 co_name := ''Chile'', co_shortname := ''Chile'', co_iso3 := ''chl''\<rparr>"

text \<open>
  A reply to the request of \<open>getExtraDisasterData\<close> for the disasters 100 and 90: the
  facets \<open><id>-day\<close> and \<open><id>-year\<close> of each, with the dates of their data. The latest
  report of the disaster 100 is five days old; the disaster 90 has no report in the last
  two months and one in 2020.
\<close>

definition ex_facets :: "(string \<times> string list) list" where
  "ex_facets =
     [(''100-day'', [''2026-10-28T00:00:00+00:00'']),
      (''100-year'', [''2026-01-01T00:00:00+00:00'']),
      (''90-day'', []),
      (''90-year'', [''2020-01-01T00:00:00+00:00''])]"

section \<open>Auxiliary lemmas\<close>

lemma drop_last_three:
  assumes "3 \<le> length ps"
  shows "drop (length ps - 3) ps = [ps ! (length ps - 3), ps ! (length ps - 2), ps ! (length ps - 1)]"
proof -
  define k where "k = length ps - 3"
  have len: "length ps = k + 3" using assms by (simp add: k_def)
  have "drop k ps = ps ! k # drop (Suc k) ps"
    by (rule Cons_nth_drop_Suc [symmetric]) (simp add: len)
  also have "drop (Suc k) ps = ps ! (Suc k) # drop (Suc (Suc k)) ps"
    by (rule Cons_nth_drop_Suc [symmetric]) (simp add: len)
  also have "drop (Suc (Suc k)) ps = ps ! (Suc (Suc k)) # drop (Suc (Suc (Suc k))) ps"
    by (rule Cons_nth_drop_Suc [symmetric]) (simp add: len)
  also have "drop (Suc (Suc (Suc k))) ps = []"
    using len by simp
  finally have "drop k ps = [ps ! k, ps ! Suc k, ps ! Suc (Suc k)]" .
  moreover have "length ps - 2 = Suc k" and "length ps - 1 = Suc (Suc k)"
    using len by simp_all
  ultimately show ?thesis
    by (simp add: k_def [symmetric])
qed

lemma slice_last_4_snoc:
  assumes "3 < length ps"
  shows "slice_last 4 (ps @ [l]) = [ps ! (length ps - 3), ps ! (length ps - 2), ps ! (length ps - 1), l]"
proof -
  have "slice_last 4 (ps @ [l]) = drop (length ps - 3) ps @ [l]"
    using assms by (simp add: slice_last_def)
  then show ?thesis using assms by (simp add: drop_last_three)
qed

lemma truncate_long:
  assumes "3 < length (split_blank body)"
  shows "truncate_paragraphs lt url body =
     ''...'' @ nl2 @
     trim (split_blank body ! (length (split_blank body) - 3) @ nl2 @
           split_blank body ! (length (split_blank body) - 2) @ nl2 @
           split_blank body ! (length (split_blank body) - 1) @ nl2 @
           ''['' @ lt @ '']('' @ url @ '')'')"
proof (cases "body = []")
  case True
  with assms show ?thesis by simp
next
  case False
  with assms show ?thesis
    by (simp add: truncate_paragraphs_def Let_def slice_last_4_snoc)
qed

lemma truncate_short:
  assumes "length (split_blank body) \<le> 3"
  shows "truncate_paragraphs lt url body = body"
  using assms by (simp add: truncate_paragraphs_def Let_def)

lemma digit_val_digit_char: "d < 10 \<Longrightarrow> digit_val (digit_char d) = Some d"
proof -
  assume "d < 10"
  then have "d = 0 \<or> d = 1 \<or> d = 2 \<or> d = 3 \<or> d = 4 \<or> d = 5 \<or> d = 6 \<or> d = 7 \<or> d = 8 \<or> d = 9"
    by arith
  then show ?thesis
    by (elim disjE) (simp_all add: digit_val_def digit_char_def)
qed

lemma show_nat_small: "n < 10 \<Longrightarrow> show_nat n = [digit_char n]"
  by (subst show_nat.simps) simp

lemma show_nat_large: "\<not> n < 10 \<Longrightarrow> show_nat n = show_nat (n div 10) @ [digit_char (n mod 10)]"
  by (subst show_nat.simps) simp

lemma show_nat_not_Nil: "show_nat n \<noteq> []"
  by (cases "n < 10") (simp_all add: show_nat_small show_nat_large)

lemma foldl_add_digit_show_nat: "foldl add_digit (Some a) (show_nat n) = Some (a * 10 ^ length (show_nat n) + n)"
proof (induction n arbitrary: a rule: show_nat.induct)
  case (1 n)
  show ?case
  proof (cases "n < 10")
    case True
    then show ?thesis
      by (simp add: show_nat_small add_digit_def digit_val_digit_char)
  next
    case False
    have "foldl add_digit (Some a) (show_nat n) =
          add_digit (foldl add_digit (Some a) (show_nat (n div 10))) (digit_char (n mod 10))"
      using False by (simp add: show_nat_large)
    also have "\<dots> = Some (10 * (a * 10 ^ length (show_nat (n div 10)) + n div 10) + n mod 10)"
      using False by (simp add: "1.IH" add_digit_def digit_val_digit_char)
    also have "\<dots> = Some (a * 10 ^ length (show_nat n) + n)"
    proof -
      have "length (show_nat n) = Suc (length (show_nat (n div 10)))"
        using False by (simp add: show_nat_large)
      then show ?thesis by (simp add: distrib_left mult.assoc mult.commute)
    qed
    finally show ?thesis .
  qed
qed

lemma parse_digits_show_nat: "parse_digits (show_nat n) = Some n"
  by (simp add: parse_digits_def show_nat_not_Nil foldl_add_digit_show_nat)

lemma is_digit_show_nat: "c \<in> set (show_nat n) \<Longrightarrow> digit_val c \<noteq> None"
proof (induction n rule: show_nat.induct)
  case (1 n)
  show ?case
  proof (cases "n < 10")
    case True
    with "1.prems" have "c = digit_char n" by (simp add: show_nat_small)
    then show ?thesis using True by (simp add: digit_val_digit_char)
  next
    case False
    with "1.prems" have "c \<in> set (show_nat (n div 10)) \<or> c = digit_char (n mod 10)"
      by (auto simp: show_nat_large)
    then show ?thesis using "1.IH" False by (auto simp: digit_val_digit_char)
  qed
qed

lemma digit_not_ws: "digit_val c \<noteq> None \<Longrightarrow> \<not> is_ws c"
  by (auto simp: digit_val_def is_ws_def split: if_splits)

lemma trim_id: "s \<noteq> [] \<Longrightarrow> \<not> is_ws (hd s) \<Longrightarrow> \<not> is_ws (last s) \<Longrightarrow> trim s = s"
proof -
  assume a: "s \<noteq> []" "\<not> is_ws (hd s)" "\<not> is_ws (last s)"
  then have "dropWhile is_ws s = s" by (cases s) simp_all
  moreover have "dropWhile is_ws (rev s) = rev s"
    using a by (cases "rev s") (simp_all add: last_rev [symmetric] hd_rev)
  ultimately show ?thesis by (simp add: trim_def)
qed

lemma StringToNumber_show_int: "StringToNumber (show_int i) = Some i"
proof (cases "i < 0")
  case True
  let ?s = "show_nat (nat (- i))"
  have ne: "?s \<noteq> []" by (rule show_nat_not_Nil)
  have "\<not> is_ws (last ?s)" using ne is_digit_show_nat digit_not_ws last_in_set by blast
  then have "trim (CHR ''-'' # ?s) = CHR ''-'' # ?s"
    using ne by (intro trim_id) (simp_all add: is_ws_def)
  then show ?thesis using True
    by (simp add: StringToNumber_def show_int_def parse_digits_show_nat)
next
  case False
  let ?s = "show_nat (nat i)"
  have ne: "?s \<noteq> []" by (rule show_nat_not_Nil)
  have l: "\<not> is_ws (last ?s)" using ne is_digit_show_nat digit_not_ws last_in_set by blast
  have h: "digit_val (hd ?s) \<noteq> None" using ne is_digit_show_nat hd_in_set by blast
  then have h': "\<not> is_ws (hd ?s)" by (rule digit_not_ws)
  have "trim ?s = ?s" using ne h' l by (rule trim_id)
  moreover have "hd ?s \<noteq> CHR ''-''" "hd ?s \<noteq> CHR ''+''"
    using h by (auto simp: digit_val_def split: if_splits)
  ultimately show ?thesis using False ne
    by (simp add: StringToNumber_def show_int_def parse_digits_show_nat)
qed

lemma js_gt_show_int: "js_gt (JStr (show_int i)) n \<longleftrightarrow> n < i"
  by (simp add: js_gt_def StringToNumber_show_int)

lemma js_gt_NaN: "\<not> js_gt (JStr ''NaN'') n"
  by (simp add: js_gt_def StringToNumber_def trim_def is_ws_def parse_digits_def add_digit_def digit_val_def)

lemma split_ex_body5: "split_blank ex_body5 = [''a'', ''b'', ''c'', ''d'', ''e'']"
  by (simp add: ex_body5_def)

lemma indexOf_self: "indexOf pat pat \<noteq> None"
  by (cases pat) (simp_all add: starts_with_def)

lemma indexOf_append: "indexOf (xs @ pat) pat \<noteq> None"
  using indexOf_self by (induction xs) (auto simp: starts_with_def)

lemma diffDays_string: "\<exists>s. diffDays parse now date = JStr s"
  by (simp add: diffDays_def split: option.split)

lemma js_gt_diffDays:
  "js_gt (diffDays parse now date) n \<longleftrightarrow>
     (\<exists>other. clone parse now date = Some other \<and> n < day_difference now other)"
  by (simp add: diffDays_def js_gt_show_int js_gt_NaN split: option.split)

lemma lastReport_recent:
  assumes "clone parse now (Some v) = Some other" and "day_difference now other \<le> 7"
  shows "lastReportFromDays (diffDays parse now (Some v)) = JStr (show_int (day_difference now other))"
proof -
  have d: "diffDays parse now (Some v) = JStr (show_int (day_difference now other))"
    using assms(1) by (simp add: diffDays_def)
  show ?thesis
    unfolding d lastReportFromDays_def using assms(2) by (simp add: js_gt_show_int)
qed

lemma addNewLabels_no_delete: "DeleteCardLabel c i \<notin> set (addNewLabels card_id labels)"
  by (auto simp: addNewLabels_def)

lemma map_has_delete: "k' \<noteq> k \<Longrightarrow> map_has (AList.delete k al) k' = map_has al k'"
  by (simp add: map_has_def)

lemma map_has_delete_imp: "map_has (AList.delete k al) k' \<Longrightarrow> map_has al k'"
  by (cases "k' = k") (simp_all add: map_has_def delete_conv')

lemma removeManagedLabels_delete:
  "DeleteCardLabel c i \<in> set (fst (removeManagedLabels managed card_id ls labels)) \<Longrightarrow>
     c = card_id \<and>
     (\<exists>l\<in>set ls. l_id l = i \<and> map_has managed (l_name l) \<and>
        (distinct (map l_name ls) \<longrightarrow> \<not> map_has labels (l_name l)))"
proof (induction ls arbitrary: labels)
  case Nil
  then show ?case by simp
next
  case (Cons label rest)
  consider
      (kept) "map_has labels (l_name label)"
    | (removed) "\<not> map_has labels (l_name label)" "map_has managed (l_name label)"
    | (foreign) "\<not> map_has labels (l_name label)" "\<not> map_has managed (l_name label)"
    by blast
  then show ?case
  proof cases
    case kept
    with Cons.prems
    have "DeleteCardLabel c i \<in>
            set (fst (removeManagedLabels managed card_id rest (AList.delete (l_name label) labels)))"
      by simp
    from Cons.IH [OF this] obtain l where l: "c = card_id" "l \<in> set rest" "l_id l = i"
      "map_has managed (l_name l)"
      "distinct (map l_name rest) \<longrightarrow> \<not> map_has (AList.delete (l_name label) labels) (l_name l)"
      by blast
    have "distinct (map l_name (label # rest)) \<longrightarrow> \<not> map_has labels (l_name l)"
    proof
      assume d: "distinct (map l_name (label # rest))"
      then have "l_name label \<notin> l_name ` set rest" by simp
      then have "l_name l \<noteq> l_name label" using l(2) by (metis imageI)
      moreover have "distinct (map l_name rest)" using d by simp
      ultimately show "\<not> map_has labels (l_name l)"
        using l(5) by (simp add: map_has_delete)
    qed
    moreover have "l \<in> set (label # rest)" using l(2) by simp
    ultimately show ?thesis using l(1,3,4) by blast
  next
    case removed
    with Cons.prems
    have "DeleteCardLabel c i \<in>
            set (DeleteCardLabel card_id (l_id label) # fst (removeManagedLabels managed card_id rest labels))"
      by (simp add: case_prod_beta)
    then consider (head) "c = card_id" "i = l_id label"
      | (tail) "DeleteCardLabel c i \<in> set (fst (removeManagedLabels managed card_id rest labels))"
      by auto
    then show ?thesis
    proof cases
      case head
      have "label \<in> set (label # rest)" by simp
      moreover have "l_id label = i" using head by simp
      ultimately show ?thesis using head(1) removed by blast
    next
      case tail
      from Cons.IH [OF this] obtain l where l: "c = card_id" "l \<in> set rest" "l_id l = i"
        "map_has managed (l_name l)"
        "distinct (map l_name rest) \<longrightarrow> \<not> map_has labels (l_name l)"
        by blast
      have "distinct (map l_name (label # rest)) \<longrightarrow> \<not> map_has labels (l_name l)"
        using l(5) by simp
      moreover have "l \<in> set (label # rest)" using l(2) by simp
      ultimately show ?thesis using l(1,3,4) by blast
    qed
  next
    case foreign
    with Cons.prems
    have "DeleteCardLabel c i \<in> set (fst (removeManagedLabels managed card_id rest labels))"
      by simp
    from Cons.IH [OF this] obtain l where l: "c = card_id" "l \<in> set rest" "l_id l = i"
      "map_has managed (l_name l)"
      "distinct (map l_name rest) \<longrightarrow> \<not> map_has labels (l_name l)"
      by blast
    have "distinct (map l_name (label # rest)) \<longrightarrow> \<not> map_has labels (l_name l)"
      using l(5) by simp
    moreover have "l \<in> set (label # rest)" using l(2) by simp
    ultimately show ?thesis using l(1,3,4) by blast
  qed
qed

lemma disaster_removeOldLabels_delete:
  "l \<in> set ls \<Longrightarrow> \<not> map_has labels (l_name l) \<Longrightarrow>
     DeleteCardLabel card_id (l_id l) \<in> set (fst (disaster_removeOldLabels card_id ls labels))"
proof (induction ls arbitrary: labels)
  case Nil
  then show ?case by simp
next
  case (Cons label rest)
  show ?case
  proof (cases "l = label")
    case True
    with Cons.prems show ?thesis by (simp add: case_prod_beta)
  next
    case False
    with Cons.prems have "l \<in> set rest" by simp
    moreover have "\<not> map_has (AList.delete (l_name label) labels) (l_name l)"
    proof
      assume "map_has (AList.delete (l_name label) labels) (l_name l)"
      then have "map_has labels (l_name l)" by (rule map_has_delete_imp)
      with Cons.prems(2) show False by simp
    qed
    ultimately show ?thesis
      using Cons.IH [of labels] Cons.IH [of "AList.delete (l_name label) labels"] Cons.prems(2)
      by (simp add: case_prod_beta)
  qed
qed

lemma ex_disaster_labels:
  "disaster_updateCardLabels ex_manager ex_labelled_card ex_disaster = [DeleteCardLabel ''C1'' ''X1'']"
  by code_simp

lemma ex_topic_labels:
  "topic_updateCardLabels ex_manager ex_list (topic_prepareCard ex_topic_card) ex_topic =
     [DeleteCardLabel ''T1'' ''B7'', PostCardLabel ''T1'' ''B3'', PostCardLabel ''T1'' ''B4'',
      PostCardLabel ''T1'' ''B5'', PostCardLabel ''T1'' ''B6'']"
  by code_simp

lemma ex_country_labels:
  "country_updateCardLabels ex_manager (country_prepareCard ex_country_card) ex_country =
     [DeleteCardLabel ''K1'' ''B7'', PostCardLabel ''K1'' ''B2'']"
  by code_simp

lemma ex_custom_unmanaged: "\<not> map_has (m_labels ex_manager) (l_name ex_custom)"
  by code_simp

lemma ex_custom_unwanted:
  "\<not> map_has (js_Map (getDisasterLabels ex_manager ex_disaster @
                       getProfileUpdateLabel ex_manager (c_profileUpdate ex_labelled_card)))
        (l_name ex_custom)"
  by code_simp

lemma ex_custom_on_card: "ex_custom \<in> set (c_labels ex_labelled_card)"
  by code_simp

lemma disaster_data_idList:
  "map_of (disaster_updateData m lst position crd d) ''idList'' =
     (if c_idList crd \<noteq> bl_id lst then Some (JStr (bl_id lst)) else None)"
  by (simp add: disaster_updateData_def Let_def update_conv')

lemma disaster_data_pos:
  "map_of (disaster_updateData m lst position crd d) ''pos'' =
     (if round_pos (c_pos crd) \<noteq> position then Some (JNum position) else None)"
  by (simp add: disaster_updateData_def Let_def update_conv')

lemma disaster_data_name:
  "map_of (disaster_updateData m lst position crd d) ''name'' =
     (if c_name crd \<noteq> d_name d then Some (JStr ''disaster.name'') else None)"
  by (simp add: disaster_updateData_def Let_def update_conv')

lemma disaster_data_desc:
  "map_of (disaster_updateData m lst position crd d) ''desc'' =
     (if Some (d_overview d) \<noteq> c_profile crd \<or> Some (d_glide d) \<noteq> c_glide crd
      then Some (JStr (disaster_generateCardDescription m d
                         (if Some (d_overview d) \<noteq> c_profile crd
                          then Some (m_currentDate m) else c_profileUpdate crd)))
      else None)"
  by (simp add: disaster_updateData_def Let_def update_conv')

lemma topic_data_idList:
  "map_of (topic_updateData m lst position crd t) ''idList'' =
     (if managedList m crd \<and> c_idList crd \<noteq> bl_id lst then Some (JStr (bl_id lst)) else None)"
  by (simp add: topic_updateData_def Let_def update_conv')

lemma topic_data_pos:
  "map_of (topic_updateData m lst position crd t) ''pos'' =
     (if managedList m crd \<and> round_pos (c_pos crd) \<noteq> position then Some (JNum position) else None)"
  by (simp add: topic_updateData_def Let_def update_conv')

lemma topic_data_name:
  "map_of (topic_updateData m lst position crd t) ''name'' =
     (if c_name crd \<noteq> t_title t then Some (JStr (t_title t)) else None)"
  by (simp add: topic_updateData_def Let_def update_conv')

lemma topic_data_desc:
  "map_of (topic_updateData m lst position crd t) ''desc'' =
     (if Some (t_introduction t) \<noteq> c_introduction crd \<or> Some (t_lastUpdate t) \<noteq> c_lastUpdate crd
      then Some (JStr (topic_generateCardDescription (c_desc crd) (t_lastUpdate t) (t_introduction t)))
      else None)"
  by (simp add: topic_updateData_def Let_def update_conv')

lemma managedList_of_status:
  assumes "map_of (m_lists m) s = Some lst" and "c_idList crd = bl_id lst"
  shows "managedList m crd"
proof -
  have "(s, lst) \<in> set (m_lists m)" using assms(1) by (rule map_of_SomeD)
  then show ?thesis using assms(2) by (auto simp: managedList_def list_ex_iff)
qed

lemma new_card_checklists:
  "c \<in> set (updateCardChecklists board cid [] t) \<Longrightarrow>
     (\<exists>n. c = PostChecklist cid n) \<or> (\<exists>l n p. c = PostCheckItem l n p)"
  by (auto simp: updateCardChecklists_def js_Map_def addChecklist_def addCheckItem_def
        split: option.splits)

lemma fold_update_has:
  "map_has (fold (\<lambda>(k, v) m. AList.update k v m) xs acc) k \<longleftrightarrow> k \<in> fst ` set xs \<or> map_has acc k"
proof (induction xs arbitrary: acc)
  case Nil
  then show ?case by simp
next
  case (Cons x xs)
  obtain a b where x: "x = (a, b)" by (cases x)
  have u: "map_has (AList.update a b acc) k \<longleftrightarrow> k = a \<or> map_has acc k"
    by (simp add: map_has_def update_conv')
  have "map_has (fold (\<lambda>(k, v) m. AList.update k v m) (x # xs) acc) k \<longleftrightarrow>
        map_has (fold (\<lambda>(k, v) m. AList.update k v m) xs (AList.update a b acc)) k"
    by (simp add: x)
  also have "\<dots> \<longleftrightarrow> k \<in> fst ` set xs \<or> map_has (AList.update a b acc) k"
    by (rule Cons.IH)
  finally show ?case
    unfolding u by (auto simp: x)
qed

lemma js_Map_has: "map_has (js_Map xs) k \<longleftrightarrow> k \<in> fst ` set xs"
  by (simp add: js_Map_def fold_update_has) (simp add: map_has_def)

lemma archive_lists_managed:
  "map_has (js_Map (map (\<lambda>(status, lst). (bl_id lst, bl_name lst)) (m_lists m))) (c_idList crd)
     \<longleftrightarrow> managedList m crd"
  by (force simp: js_Map_has managedList_def list_ex_iff image_iff split_beta)

lemma disaster_archive_calls:
  "c \<in> set (disaster_archive m left) \<longleftrightarrow>
     (\<exists>(u, crd)\<in>set left. c = PutCard (c_id crd) [(''closed'', JStr ''true'')] \<and>
        managedList m crd \<and> \<not> c_closed crd)"
  by (auto simp: disaster_archive_def Let_def archive_lists_managed archiveCard_def split: if_splits)

lemma delete_as_filter: "AList.delete k al = filter (\<lambda>(u, v). u \<noteq> k) al"
  by (auto simp: AList.delete_eq intro!: filter_cong)

lemma filter_absent_key:
  assumes "map_of al k = None"
  shows "filter (\<lambda>(u, v). u \<noteq> k \<and> P u) al = filter (\<lambda>(u, v). P u) al"
proof (rule filter_cong [OF refl])
  fix x assume "x \<in> set al"
  then have "fst x \<in> fst ` set al" by simp
  moreover have "k \<notin> fst ` set al" using assms by (simp add: map_of_eq_None_iff)
  ultimately have "fst x \<noteq> k" by metis
  then show "(case x of (u, v) \<Rightarrow> u \<noteq> k \<and> P u) = (case x of (u, v) \<Rightarrow> P u)"
    by (simp add: split_beta)
qed

lemma disaster_process_left:
  "disaster_process m board cards ds = (calls, Some left) \<Longrightarrow>
     left = filter (\<lambda>(u, crd). u \<notin> set (map d_url ds)) cards"
proof (induction ds arbitrary: cards calls)
  case Nil
  then show ?case by simp
next
  case (Cons d ds)
  show ?case
  proof (cases "map_of cards (d_url d)")
    case None
    with Cons.prems obtain more where
      "disaster_process m board cards ds = (more, Some left)"
      by (auto simp: Let_def split: option.splits prod.splits)
    from Cons.IH [OF this] have "left = filter (\<lambda>(u, crd). u \<notin> set (map d_url ds)) cards" .
    also have "\<dots> = filter (\<lambda>(u, crd). u \<noteq> d_url d \<and> u \<notin> set (map d_url ds)) cards"
      using filter_absent_key [OF None, of "\<lambda>u. u \<notin> set (map d_url ds)"] by simp
    finally show ?thesis by (simp add: conj_commute)
  next
    case (Some crd)
    with Cons.prems obtain more where
      "disaster_process m board (AList.delete (d_url d) cards) ds = (more, Some left)"
      by (auto simp: Let_def split: option.splits prod.splits)
    from Cons.IH [OF this]
    have "left = filter (\<lambda>(u, crd). u \<notin> set (map d_url ds)) (AList.delete (d_url d) cards)" .
    then show ?thesis
      by (simp add: delete_as_filter split_beta conj_commute)
  qed
qed

lemma removeManagedLabels_no_archive:
  "c \<in> set (fst (removeManagedLabels managed card_id ls labels)) \<Longrightarrow> \<not> archives c"
  by (induction ls arbitrary: labels) (auto simp: case_prod_beta split: if_splits)

lemma addNewLabels_no_archive: "c \<in> set (addNewLabels card_id labels) \<Longrightarrow> \<not> archives c"
  by (auto simp: addNewLabels_def)

lemma updateCheckItems_no_archive:
  "c \<in> set (fst (updateCheckItems card_id checklist_id board_items items)) \<Longrightarrow> \<not> archives c"
  by (induction board_items arbitrary: items)
     (auto simp: case_prod_beta Let_def updateCheckItem_def split: if_splits option.splits list.splits)

lemma addChecklist_no_archive:
  "c \<in> set (addChecklist board card_id name items) \<Longrightarrow> \<not> archives c"
  by (auto simp: addChecklist_def addCheckItem_def split: option.splits)

lemma updateChecklist_no_archive:
  "c \<in> set (updateChecklist card_id cl items) \<Longrightarrow> \<not> archives c"
proof -
  assume "c \<in> set (updateChecklist card_id cl items)"
  then consider
      "c \<in> set (fst (updateCheckItems card_id (cl_id cl) (cl_checkItems cl) items))"
    | "c \<in> set (map (\<lambda>(url, i). addCheckItem (cl_id cl) i)
                   (snd (updateCheckItems card_id (cl_id cl) (cl_checkItems cl) items)))"
    by (auto simp: updateChecklist_def case_prod_beta)
  then show ?thesis
  proof cases
    case 1
    then show ?thesis by (rule updateCheckItems_no_archive)
  next
    case 2
    then show ?thesis by (auto simp: addCheckItem_def)
  qed
qed

lemma updateCardChecklists_no_archive:
  "c \<in> set (updateCardChecklists board card_id cls t) \<Longrightarrow> \<not> archives c"
proof -
  assume "c \<in> set (updateCardChecklists board card_id cls t)"
  then obtain name items where
    "c \<in> set (case map_of (js_Map (map (\<lambda>cl. (cl_name cl, cl)) cls)) name of
                None \<Rightarrow> addChecklist board card_id name items
              | Some cl \<Rightarrow> updateChecklist card_id cl items)"
    by (auto simp: updateCardChecklists_def Let_def)
  then show ?thesis
    by (cases "map_of (js_Map (map (\<lambda>cl. (cl_name cl, cl)) cls)) name")
       (simp_all add: addChecklist_no_archive updateChecklist_no_archive)
qed

lemma topic_data_no_archive: "topic_updateData m lst position crd t \<noteq> [(''closed'', JStr ''true'')]"
proof
  assume "topic_updateData m lst position crd t = [(''closed'', JStr ''true'')]"
  then have "map_of (topic_updateData m lst position crd t) ''closed'' = Some (JStr ''true'')"
    by simp
  then show False
    by (simp add: topic_updateData_def Let_def update_conv' split: if_splits)
qed

lemma topic_updateCardLabels_no_archive:
  "c \<in> set (topic_updateCardLabels m lst crd t) \<Longrightarrow> \<not> archives c"
proof -
  assume "c \<in> set (topic_updateCardLabels m lst crd t)"
  then consider
      "c \<in> set (fst (removeManagedLabels (m_labels m) (c_id crd) (c_labels crd) (getTopicLabels m lst t)))"
    | "c \<in> set (addNewLabels (c_id crd)
                   (snd (removeManagedLabels (m_labels m) (c_id crd) (c_labels crd) (getTopicLabels m lst t))))"
    by (auto simp: topic_updateCardLabels_def Let_def case_prod_beta)
  then show ?thesis
    by cases (simp_all add: removeManagedLabels_no_archive addNewLabels_no_archive)
qed

lemma topic_updateCard_no_archive:
  assumes "topic_updateCard m board position crd t = Some calls" and "c \<in> set calls"
  shows "\<not> archives c"
proof -
  from assms(1) obtain lst where
    calls: "calls = topic_updateCardLabels m lst crd t @
                    updateCardChecklists board (c_id crd) (c_checklists crd) t @
                    (if topic_updateData m lst position crd t \<noteq> []
                     then [PutCard (c_id crd) (topic_updateData m lst position crd t)] else [])"
    by (cases "map_of (m_lists m) (t_status t)") (auto simp: topic_updateCard_def Let_def)
  from assms(2) consider
      "c \<in> set (topic_updateCardLabels m lst crd t)"
    | "c \<in> set (updateCardChecklists board (c_id crd) (c_checklists crd) t)"
    | "c = PutCard (c_id crd) (topic_updateData m lst position crd t)"
    unfolding calls by (auto split: if_splits)
  then show ?thesis
    by cases
      (simp_all add: topic_updateCardLabels_no_archive updateCardChecklists_no_archive
         topic_data_no_archive)
qed

lemma topic_createCard_no_archive:
  assumes "topic_createCard m board position t = Some calls" and "c \<in> set calls"
  shows "\<not> archives c"
proof (cases "map_of (m_lists m) (t_status t)")
  case None
  with assms(1) show ?thesis by (simp add: topic_createCard_def)
next
  case lst: (Some lst)
  show ?thesis
  proof (cases "board (PostCard (topic_createData m lst position t))")
    case None
    with assms lst show ?thesis by (auto simp: topic_createCard_def Let_def)
  next
    case (Some card_id)
    with assms lst have
      "c = PostCard (topic_createData m lst position t) \<or> c = PostAttachment card_id (t_url t) \<or>
       c \<in> set (updateCardChecklists board card_id [] t)"
      by (auto simp: topic_createCard_def Let_def)
    then show ?thesis
      using updateCardChecklists_no_archive [of c board card_id "[]" t] by auto
  qed
qed

lemma topic_process_no_archive:
  "c \<in> set (fst (topic_process m board cards ts)) \<Longrightarrow> \<not> archives c"
proof (induction ts)
  case Nil
  then show ?case by simp
next
  case (Cons t ts)
  define step where
    "step = (case map_of cards (t_url t) of
               Some crd \<Rightarrow> topic_updateCard m board (maxIndex - t_id t) crd t
             | None \<Rightarrow> topic_createCard m board (maxIndex - t_id t) t)"
  show ?case
  proof (cases step)
    case None
    with Cons.prems show ?thesis by (simp add: step_def Let_def)
  next
    case (Some calls)
    with Cons.prems have "c \<in> set calls \<or> c \<in> set (fst (topic_process m board cards ts))"
      by (auto simp: step_def Let_def case_prod_beta)
    moreover have "c \<in> set calls \<Longrightarrow> \<not> archives c"
      using Some topic_updateCard_no_archive topic_createCard_no_archive
      unfolding step_def by (cases "map_of cards (t_url t)") auto
    ultimately show ?thesis using Cons.IH by blast
  qed
qed

lemma country_updateCard_no_archive:
  "c \<in> set (country_updateCard m crd co) \<Longrightarrow> \<not> archives c"
proof -
  let ?labels = "js_Map (getCountryLabels m co @ getProfileUpdateLabel m (c_profileUpdate crd))"
  assume "c \<in> set (country_updateCard m crd co)"
  then consider
      "c \<in> set (fst (removeManagedLabels (m_labels m) (c_id crd) (c_labels crd) ?labels))"
    | "c \<in> set (addNewLabels (c_id crd)
                   (snd (removeManagedLabels (m_labels m) (c_id crd) (c_labels crd) ?labels)))"
    | "c = PutCard (c_id crd) (country_updateData m crd co)"
    by (auto simp: country_updateCard_def country_updateCardLabels_def Let_def case_prod_beta
          split: if_splits)
  then show ?thesis
  proof cases
    case 3
    then show ?thesis by (simp add: country_updateData_def)
  qed (simp_all add: removeManagedLabels_no_archive addNewLabels_no_archive)
qed

lemma country_updateBoard_no_archive:
  "c \<in> set (country_updateBoard m bcards countries) \<Longrightarrow> \<not> archives c"
proof -
  assume "c \<in> set (country_updateBoard m bcards countries)"
  then obtain co where
    "c \<in> set (case map_of (matchCards country_urlPattern country_prepareCard bcards) (co_url co) of
                Some crd \<Rightarrow> country_updateCard m crd co | None \<Rightarrow> [])"
    by (auto simp: country_updateBoard_def Let_def)
  then show ?thesis
    by (cases "map_of (matchCards country_urlPattern country_prepareCard bcards) (co_url co)")
       (simp_all add: country_updateCard_no_archive)
qed

lemma disaster_process_append:
  "disaster_process m board cards pre = (calls_pre, Some cards_left) \<Longrightarrow>
     disaster_process m board cards (pre @ rest) =
       (calls_pre @ fst (disaster_process m board cards_left rest),
        snd (disaster_process m board cards_left rest))"
proof (induction pre arbitrary: cards calls_pre)
  case Nil
  then show ?case by simp
next
  case (Cons d ds)
  define step where
    "step = (case map_of cards (d_url d) of
               Some crd \<Rightarrow> disaster_updateCard m (maxIndex - d_id d) crd d
             | None \<Rightarrow> disaster_createCard m board (maxIndex - d_id d) d)"
  define cards' where
    "cards' = (case map_of cards (d_url d) of
                 Some crd \<Rightarrow> AList.delete (d_url d) cards | None \<Rightarrow> cards)"
  have unfold: "\<And>xs. disaster_process m board cards (d # xs) =
      (case step of None \<Rightarrow> ([], None)
       | Some calls \<Rightarrow> (calls @ fst (disaster_process m board cards' xs),
                        snd (disaster_process m board cards' xs)))"
    by (simp add: step_def cards'_def Let_def case_prod_beta split: option.split)
  show ?case
  proof (cases step)
    case None
    with Cons.prems show ?thesis by (simp add: unfold del: disaster_process.simps)
  next
    case (Some calls)
    with Cons.prems have
      p: "disaster_process m board cards' ds = (drop (length calls) calls_pre, Some cards_left)"
      and c: "calls_pre = calls @ fst (disaster_process m board cards' ds)"
      by (auto simp: unfold prod_eq_iff simp del: disaster_process.simps)
    from Cons.IH [OF p] have
      "disaster_process m board cards' (ds @ rest) =
         (drop (length calls) calls_pre @ fst (disaster_process m board cards_left rest),
          snd (disaster_process m board cards_left rest))" .
    moreover have "drop (length calls) calls_pre = fst (disaster_process m board cards' ds)"
      using p by simp
    ultimately show ?thesis
      using Some c by (simp add: unfold del: disaster_process.simps)
  qed
qed

lemma disaster_process_head_created:
  assumes "map_of cards (d_url d) = None" and "map_of (m_lists m) (d_status d) = Some lst"
  shows "disaster_process m board cards (d # ds) =
     ((case board (PostCard (disaster_createData m lst (maxIndex - d_id d) d)) of
         Some cid \<Rightarrow> [PostCard (disaster_createData m lst (maxIndex - d_id d) d),
                      PostAttachment cid (d_url d)]
       | None \<Rightarrow> [PostCard (disaster_createData m lst (maxIndex - d_id d) d)]) @
      fst (disaster_process m board cards ds),
      snd (disaster_process m board cards ds))"
  using assms
  by (simp add: disaster_createCard_def Let_def case_prod_beta split: option.split)

lemma disaster_process_head_aborted:
  assumes "map_of cards (d_url d) = None" and "map_of (m_lists m) (d_status d) = None"
  shows "disaster_process m board cards (d # ds) = ([], None)"
  using assms by (simp add: disaster_createCard_def)

lemma topic_process_append:
  "topic_process m board cards pre = (calls_pre, True) \<Longrightarrow>
     topic_process m board cards (pre @ rest) =
       (calls_pre @ fst (topic_process m board cards rest), snd (topic_process m board cards rest))"
proof (induction pre arbitrary: calls_pre)
  case Nil
  then show ?case by simp
next
  case (Cons t ts)
  define step where
    "step = (case map_of cards (t_url t) of
               Some crd \<Rightarrow> topic_updateCard m board (maxIndex - t_id t) crd t
             | None \<Rightarrow> topic_createCard m board (maxIndex - t_id t) t)"
  have unfold: "\<And>xs. topic_process m board cards (t # xs) =
      (case step of None \<Rightarrow> ([], False)
       | Some calls \<Rightarrow> (calls @ fst (topic_process m board cards xs),
                        snd (topic_process m board cards xs)))"
    by (simp add: step_def Let_def case_prod_beta split: option.split)
  show ?case
  proof (cases step)
    case None
    with Cons.prems show ?thesis by (simp add: unfold del: topic_process.simps)
  next
    case (Some calls)
    with Cons.prems have
      p: "topic_process m board cards ts = (drop (length calls) calls_pre, True)"
      and c: "calls_pre = calls @ fst (topic_process m board cards ts)"
      by (auto simp: unfold prod_eq_iff simp del: topic_process.simps)
    from Cons.IH [OF p] have
      "topic_process m board cards (ts @ rest) =
         (drop (length calls) calls_pre @ fst (topic_process m board cards rest),
          snd (topic_process m board cards rest))" .
    moreover have "drop (length calls) calls_pre = fst (topic_process m board cards ts)"
      using p by simp
    ultimately show ?thesis
      using Some c by (simp add: unfold del: topic_process.simps)
  qed
qed

lemma topic_process_head_created:
  assumes "map_of cards (t_url t) = None" and "map_of (m_lists m) (t_status t) = Some lst"
  shows "topic_process m board cards (t # ts) =
     ((case board (PostCard (topic_createData m lst (maxIndex - t_id t) t)) of
         Some cid \<Rightarrow> PostCard (topic_createData m lst (maxIndex - t_id t) t) #
                     PostAttachment cid (t_url t) # updateCardChecklists board cid [] t
       | None \<Rightarrow> [PostCard (topic_createData m lst (maxIndex - t_id t) t)]) @
      fst (topic_process m board cards ts),
      snd (topic_process m board cards ts))"
  using assms
  by (simp add: topic_createCard_def Let_def case_prod_beta split: option.split)

lemma topic_process_head_aborted:
  assumes "map_of cards (t_url t) = None" and "map_of (m_lists m) (t_status t) = None"
  shows "topic_process m board cards (t # ts) = ([], False)"
  using assms by (simp add: topic_createCard_def)

lemma country_unmatched_anywhere:
  assumes "map_of (matchCards country_urlPattern country_prepareCard bcards) (co_url co) = None"
  shows "country_updateBoard m bcards (pre @ co # post) =
           country_updateBoard m bcards pre @ country_updateBoard m bcards post"
  using assms by (simp add: country_updateBoard_def Let_def)

lemma indexOf_Some:
  "pat \<noteq> [] \<Longrightarrow> indexOf s pat = Some j \<Longrightarrow> take (length pat) (drop j s) = pat"
proof (induction s arbitrary: j)
  case Nil
  then show ?case by simp
next
  case (Cons c cs)
  show ?case
  proof (cases "starts_with pat (c # cs)")
    case True
    with Cons.prems show ?thesis by (simp add: starts_with_def)
  next
    case False
    with Cons.prems obtain i where "indexOf cs pat = Some i" and "j = Suc i" by auto
    with Cons.IH [OF Cons.prems(1)] show ?thesis by simp
  qed
qed

lemma show_int_chars: "c \<in> set (show_int i) \<Longrightarrow> c = CHR ''-'' \<or> digit_val c \<noteq> None"
  using is_digit_show_nat by (auto simp: show_int_def split: if_splits)

lemma show_int_last: "digit_val (last (show_int i)) \<noteq> None"
proof -
  have "\<And>n. digit_val (last (show_nat n)) \<noteq> None"
    by (rule is_digit_show_nat [OF last_in_set [OF show_nat_not_Nil]])
  then show ?thesis by (simp add: show_int_def show_nat_not_Nil del: not_None_eq)
qed

lemma show_int_inj:
  assumes "show_int a = show_int b"
  shows "a = b"
proof -
  have "Some a = StringToNumber (show_int a)" by (simp only: StringToNumber_show_int)
  also have "\<dots> = StringToNumber (show_int b)" by (simp only: assms)
  also have "\<dots> = Some b" by (simp only: StringToNumber_show_int)
  finally show ?thesis by simp
qed

lemma day_key:
  assumes "indexOf k ''-day'' \<noteq> None" and "take (length k - 4) k = show_int i"
  shows "k = show_int i @ ''-day''"
proof -
  let ?s = "show_int i"
  from assms(1) obtain j where j: "indexOf k ''-day'' = Some j" by auto
  have l4: "length ''-day'' = (4::nat)" by simp
  have "take (length ''-day'') (drop j k) = ''-day''" using j by (intro indexOf_Some) simp_all
  then have t: "take 4 (drop j k) = ''-day''" by (simp only: l4)
  have len: "j + 4 \<le> length k"
  proof (rule ccontr)
    assume "\<not> j + 4 \<le> length k"
    then have "length (take 4 (drop j k)) < 4" by simp
    with t show False by simp
  qed
  define s where "s = take (length k - 4) k"
  define e where "e = drop (length k - 4) k"
  have k: "k = s @ e" by (simp add: s_def e_def)
  have ls: "length s = length k - 4" by (simp add: s_def)
  have s: "s = show_int i" using assms(2) by (simp add: s_def)
  have k0: "k ! j = CHR ''-''" and k1: "k ! Suc j = CHR ''d''"
  proof -
    have "take 4 (drop j k) ! 0 = CHR ''-''" "take 4 (drop j k) ! 1 = CHR ''d''" by (simp_all add: t)
    with len show "k ! j = CHR ''-''" "k ! Suc j = CHR ''d''" by simp_all
  qed
  have "\<not> Suc j < length s"
  proof
    assume a: "Suc j < length s"
    then have "s ! Suc j = CHR ''d''" using k1 by (simp add: k nth_append)
    with a have "CHR ''d'' \<in> set s" by (metis nth_mem)
    with s show False using show_int_chars [of "CHR ''d''" i] by (simp add: digit_val_def)
  qed
  moreover have "Suc j \<noteq> length s"
  proof
    assume a: "Suc j = length s"
    then have "s ! j = CHR ''-''" using k0 by (simp add: k nth_append)
    moreover have "last s = s ! j" using a by (metis diff_Suc_1 last_conv_nth length_0_conv nat.simps(3))
    ultimately show False using show_int_last [of i] s by (simp add: digit_val_def)
  qed
  moreover have "j \<le> length s" using len ls by simp
  ultimately have "j = length s" by simp
  with t have "take 4 e = ''-day''" by (simp add: k)
  moreover have "length e = 4" using len by (simp add: e_def)
  ultimately have "e = ''-day''" by simp
  with k s show ?thesis by simp
qed

lemma day_key_iff:
  "indexOf k ''-day'' \<noteq> None \<and> show_int i = take (length k - 4) k \<longleftrightarrow> k = show_int i @ ''-day''"
  using day_key [of k i] indexOf_append [of "show_int i" "''-day''"] by auto

lemma update_last_match_none: "\<not> list_ex P xs \<Longrightarrow> update_last_match P f xs = xs"
  by (induction xs) (simp_all split: if_splits)

lemma update_last_match_Cons:
  "update_last_match P f (x # xs) =
     (if \<not> list_ex P xs \<and> P x then f x else x) # update_last_match P f xs"
  by (simp add: update_last_match_none)

lemma update_last_match_ids:
  "(\<And>x. g (f x) = g x) \<Longrightarrow> map g (update_last_match P f xs) = map g xs"
  by (induction xs) simp_all

lemma updateLastReport_id: "d_id (updateLastReport parse now R ident fd d) = d_id d"
  by (simp add: updateLastReport_def split: list.split option.split)

lemma getExtraDisasterData_Cons:
  assumes "distinct (map fst results)"
  shows "getExtraDisasterData parse now results (d # ds) =
     (if d_id d \<in> d_id ` set ds then d
      else case map_of results (show_int (d_id d) @ ''-day'') of
             None \<Rightarrow> d
           | Some facetDay \<Rightarrow> updateLastReport parse now results (show_int (d_id d)) facetDay d) #
     getExtraDisasterData parse now results ds"
proof -
  define F :: "string \<times> string list \<Rightarrow> disaster list \<Rightarrow> disaster list" where
    "F = (\<lambda>(key, facetDay) ds.
             if indexOf key ''-day'' \<noteq> None
             then (let ident = take (length key - 4) key
                   in update_last_match (\<lambda>d. show_int (d_id d) = ident)
                        (updateLastReport parse now results ident facetDay) ds)
             else ds)"
  define g :: "string \<times> string list \<Rightarrow> disaster \<Rightarrow> disaster" where
    "g = (\<lambda>(key, facetDay) d.
             if key = show_int (d_id d) @ ''-day''
             then updateLastReport parse now results (show_int (d_id d)) facetDay d else d)"
  have G: "\<And>xs. getExtraDisasterData parse now results xs = fold F results xs"
    by (simp add: getExtraDisasterData_def F_def)
  have F_ids: "\<And>e xs. map d_id (F e xs) = map d_id xs"
    by (simp add: F_def case_prod_beta Let_def update_last_match_ids updateLastReport_id)
  have g_id: "\<And>e x. d_id (g e x) = d_id x"
    by (simp add: g_def case_prod_beta updateLastReport_id)
  have F_Cons: "F e (x # xs) = (if d_id x \<in> d_id ` set xs then x else g e x) # F e xs" for e x xs
  proof (cases e)
    case (Pair k fd)
    show ?thesis
    proof (cases "indexOf k ''-day'' \<noteq> None \<and> show_int (d_id x) = take (length k - 4) k")
      case True
      then have k: "k = show_int (d_id x) @ ''-day''" by (simp only: day_key_iff)
      have eq: "(show_int (d_id y) = show_int (d_id x)) = (d_id x = d_id y)" for y :: disaster
        by (auto dest: show_int_inj)
      have "list_ex (\<lambda>d. show_int (d_id d) = show_int (d_id x)) xs \<longleftrightarrow> d_id x \<in> d_id ` set xs"
        by (simp add: list_ex_iff image_iff eq)
      moreover have "indexOf (show_int (d_id x) @ ''-day'') ''-day'' \<noteq> None"
        by (rule indexOf_append)
      ultimately show ?thesis
        by (simp add: Pair F_def g_def k Let_def update_last_match_Cons
              del: update_last_match.simps)
    next
      case False
      then have k: "k \<noteq> show_int (d_id x) @ ''-day''" by (simp only: day_key_iff) simp
      from False show ?thesis
        by (auto simp: Pair F_def g_def k Let_def update_last_match_Cons
              simp del: update_last_match.simps)
    qed
  qed
  have fold_Cons: "fold F rs (x # xs) =
      (if d_id x \<in> d_id ` set xs then x else fold g rs x) # fold F rs xs" for rs x xs
  proof (induction rs arbitrary: x xs)
    case Nil
    then show ?case by simp
  next
    case (Cons e rs)
    have ids: "d_id ` set (F e xs) = d_id ` set xs"
      using F_ids [of e xs] by (metis set_map)
    show ?case
      by (simp add: F_Cons Cons.IH ids g_id)
  qed
  have g_fold: "distinct (map fst rs) \<Longrightarrow> fold g rs x =
      (case map_of rs (show_int (d_id x) @ ''-day'') of
         None \<Rightarrow> x
       | Some fd \<Rightarrow> updateLastReport parse now results (show_int (d_id x)) fd x)" for rs x
  proof (induction rs arbitrary: x)
    case Nil
    then show ?case by simp
  next
    case (Cons e rs)
    obtain k fd where e: "e = (k, fd)" by (cases e)
    from Cons.prems have dist: "distinct (map fst rs)" and k: "k \<notin> fst ` set rs"
      by (simp_all add: e)
    show ?case
    proof (cases "k = show_int (d_id x) @ ''-day''")
      case True
      with k have "map_of rs (show_int (d_id x) @ ''-day'') = None"
        by (simp add: map_of_eq_None_iff)
      then show ?thesis
        using Cons.IH [OF dist, of "g e x"] True by (simp add: e g_id) (simp add: g_def)
    next
      case False
      then show ?thesis using Cons.IH [OF dist, of x] by (simp add: e g_def)
    qed
  qed
  show ?thesis by (simp add: G fold_Cons g_fold [OF assms])
qed

lemma getExtraDisasterData_nth:
  assumes "distinct (map fst results)" and "j < length ds"
    and "d_id (ds ! j) \<notin> d_id ` set (drop (Suc j) ds)"
  shows "getExtraDisasterData parse now results ds ! j =
     (case map_of results (show_int (d_id (ds ! j)) @ ''-day'') of
        None \<Rightarrow> ds ! j
      | Some facetDay \<Rightarrow> updateLastReport parse now results (show_int (d_id (ds ! j))) facetDay (ds ! j))"
  using assms(2,3)
proof (induction ds arbitrary: j)
  case Nil
  then show ?case by simp
next
  case (Cons d ds)
  show ?case
  proof (cases j)
    case 0
    show ?thesis using Cons.prems unfolding 0
      by (simp add: getExtraDisasterData_Cons [OF assms(1)] cong: option.case_cong)
  next
    case (Suc i)
    show ?thesis using Cons.prems Cons.IH [of i] unfolding Suc
      by (simp add: getExtraDisasterData_Cons [OF assms(1)] cong: option.case_cong)
  qed
qed

lemma ToNumber_diffDays:
  "ToNumber (diffDays parse now date) = map_option (day_difference now) (clone parse now date)"
proof -
  have "StringToNumber ''NaN'' = None"
    by (simp add: StringToNumber_def trim_def is_ws_def parse_digits_def add_digit_def digit_val_def)
  then show ?thesis
    by (simp add: diffDays_def StringToNumber_show_int split: option.split)
qed

lemma lastReport_buckets:
  "lastReportFromDays (diffDays parse now date) =
     (case clone parse now date of
        None \<Rightarrow> JStr ''NaN''
      | Some other \<Rightarrow>
          if 60 < day_difference now other then JNum 61
          else if 30 < day_difference now other then JNum 31
          else if 7 < day_difference now other then JNum 8
          else JStr (show_int (day_difference now other)))"
  by (simp add: lastReportFromDays_def diffDays_def js_gt_show_int js_gt_NaN split: option.split)

lemma js_gt_JNum: "js_gt (JNum k) n \<longleftrightarrow> n < k"
  by (simp add: js_gt_def)

lemma getDisasterLabels_thresholds:
  "getDisasterLabels m (d\<lparr>d_lastReport := lastReportFromDays (diffDays parse now date)\<rparr>) =
     (let labels = add_named_labels (m_labels m) (d_country d)
                     (add_named_labels (m_labels m) (d_type d) [])
      in case clone parse now date of
           None \<Rightarrow> labels
         | Some other \<Rightarrow>
             if 60 < day_difference now other
             then set_label (m_labels m) ''Last Report > 2 Months'' labels
             else if 30 < day_difference now other
             then set_label (m_labels m) ''Last Report > 1 Month'' labels
             else if 7 < day_difference now other
             then set_label (m_labels m) ''Last Report > 1 Week'' labels
             else labels)"
  by (simp add: getDisasterLabels_def lastReport_buckets Let_def js_gt_show_int js_gt_NaN js_gt_JNum
        split: option.split)

lemma getProfileUpdateLabel_thresholds:
  "getProfileUpdateLabel m lastUpdate =
     (case clone (m_parse m) (m_now m) lastUpdate of
        None \<Rightarrow> []
      | Some other \<Rightarrow>
          if 21 < day_difference (m_now m) other
          then set_label (m_labels m) ''Profile Update > 3 Weeks'' []
          else if 14 < day_difference (m_now m) other
          then set_label (m_labels m) ''Profile Update > 2 Weeks'' []
          else if 7 < day_difference (m_now m) other
          then set_label (m_labels m) ''Profile Update > 1 Weeks'' []
          else [])"
  by (simp add: getProfileUpdateLabel_def diffDays_def Let_def js_gt_show_int js_gt_NaN
        split: option.split)

lemma getTopicLabels_thresholds:
  "getTopicLabels m lst t =
     (let labels = add_named_labels (m_labels m) (t_theme t)
                     (add_named_labels (m_labels m) (t_disaster_type t) []);
          labels = set_label (m_labels m) (bl_name lst)
                     (if t_featured t then set_label (m_labels m) ''Featured'' labels else labels)
      in case clone (m_parse m) (m_now m) (Some (t_changed t)) of
           None \<Rightarrow> labels
         | Some other \<Rightarrow>
             if 60 < day_difference (m_now m) other
             then set_label (m_labels m) ''Last Update > 2 Months'' labels
             else if 30 < day_difference (m_now m) other
             then set_label (m_labels m) ''Last Update > 1 Month'' labels
             else if 7 < day_difference (m_now m) other
             then set_label (m_labels m) ''Last Update > 1 Week'' labels
             else labels)"
  by (simp add: getTopicLabels_def diffDays_def Let_def js_gt_show_int js_gt_NaN
        split: option.split)

lemma getExtraDisasterData_Nil: "getExtraDisasterData parse now results [] = []"
proof -
  have "fold (\<lambda>(key, facetDay) ds.
                if indexOf key ''-day'' \<noteq> None
                then (let ident = take (length key - 4) key
                      in update_last_match (\<lambda>d. show_int (d_id d) = ident)
                           (updateLastReport parse now R ident facetDay) ds)
                else ds) rs [] = []" for rs R
    by (induction rs) (simp_all add: case_prod_beta Let_def)
  then show ?thesis by (simp add: getExtraDisasterData_def)
qed

lemma getDisasterLabels_coercion:
  "getDisasterLabels m e =
     (let labels = add_named_labels (m_labels m) (d_country e)
                     (add_named_labels (m_labels m) (d_type e) [])
      in case ToNumber (d_lastReport e) of
           None \<Rightarrow> labels
         | Some k \<Rightarrow>
             if 60 < k then set_label (m_labels m) ''Last Report > 2 Months'' labels
             else if 30 < k then set_label (m_labels m) ''Last Report > 1 Month'' labels
             else if 7 < k then set_label (m_labels m) ''Last Report > 1 Week'' labels
             else labels)"
  by (simp add: getDisasterLabels_def js_gt_def Let_def split: option.split)

section \<open>Truncation of the body text\<close>

text \<open>
  Claim C2, as amended. When the text has more than three paragraphs, the prepared text
  is the ellipsis, a blank line, and the trimmed join (with blank lines) of the last
  THREE paragraphs of the text and the read-more link: the link is pushed onto the list
  before the last four elements are taken, so it is one of the four. A text with at most
  three paragraphs is returned unchanged. This holds for the overview of a disaster and
  for the introduction of a topic.
\<close>

theorem truncation_keeps_last_three:
  "(3 < length (split_blank body) \<longrightarrow>
      d_overview (prepareDisaster cfg (f\<lparr>f_overview := Some body\<rparr>)) =
        ''...'' @ nl2 @
        trim (split_blank body ! (length (split_blank body) - 3) @ nl2 @
              split_blank body ! (length (split_blank body) - 2) @ nl2 @
              split_blank body ! (length (split_blank body) - 1) @ nl2 @
              ''[Read full description]('' @ f_url f @ '')'') \<and>
      t_introduction (prepareTopic cfg parse now fmt (tf\<lparr>tf_introduction := Some body\<rparr>)) =
        ''...'' @ nl2 @
        trim (split_blank body ! (length (split_blank body) - 3) @ nl2 @
              split_blank body ! (length (split_blank body) - 2) @ nl2 @
              split_blank body ! (length (split_blank body) - 1) @ nl2 @
              ''[Read full introduction]('' @ tf_url tf @ '')'')) \<and>
   (length (split_blank body) \<le> 3 \<longrightarrow>
      d_overview (prepareDisaster cfg (f\<lparr>f_overview := Some body\<rparr>)) = body \<and>
      t_introduction (prepareTopic cfg parse now fmt (tf\<lparr>tf_introduction := Some body\<rparr>)) = body)"
  by (simp add: prepareDisaster_def prepareTopic_def truncate_long truncate_short split_beta Let_def)

theorem truncation_keeps_last_three_witness:
  "3 < length (split_blank ex_body5) \<and>
   d_overview (prepareDisaster ex_lists (ex_fields\<lparr>f_overview := Some ex_body5\<rparr>)) =
     ''...'' @ nl2 @ ''c'' @ nl2 @ ''d'' @ nl2 @ ''e'' @ nl2 @
     ''[Read full description](https://reliefweb.int/taxonomy/term/100)'' \<and>
   length (split_blank (''a'' @ nl2 @ ''b'')) \<le> 3 \<and>
   d_overview (prepareDisaster ex_lists (ex_fields\<lparr>f_overview := Some (''a'' @ nl2 @ ''b'')\<rparr>)) = ''a'' @ nl2 @ ''b''"
  using truncation_keeps_last_three [of ex_body5 ex_lists ex_fields "\<lambda>s. None" 0 "\<lambda>d. []" ex_topic_fields]
        truncation_keeps_last_three [of "''a'' @ nl2 @ ''b''" ex_lists ex_fields "\<lambda>s. None" 0 "\<lambda>d. []" ex_topic_fields]
  by (simp add: split_ex_body5 ex_fields_def trim_def is_ws_def)

text \<open>
  The claim as stated fails on the text of the five paragraphs a, b, c, d, e: the
  prepared overview is not the one with b, c, d and e.
\<close>

theorem truncation_last_four_counterexample:
  "split_blank ex_body5 = [''a'', ''b'', ''c'', ''d'', ''e''] \<and>
   d_overview (prepareDisaster ex_lists (ex_fields\<lparr>f_overview := Some ex_body5\<rparr>)) \<noteq>
     ''...'' @ nl2 @ ''b'' @ nl2 @ ''c'' @ nl2 @ ''d'' @ nl2 @ ''e'' @ nl2 @
     ''[Read full description](https://reliefweb.int/taxonomy/term/100)''"
  by (simp add: split_ex_body5 prepareDisaster_def truncate_paragraphs_def ex_fields_def
        slice_last_def trim_def is_ws_def ex_body5_def)

section \<open>The day difference is a string\<close>

text \<open>
  Claim C10. \<open>diffDays\<close> returns a string for every pair of dates: the text of the rounded
  difference in days, or of \<open>NaN\<close> for an invalid date. It is never a number, and its
  conversion to a number gives the difference in days back (\<open>NaN\<close> for an invalid date).
  Every threshold check of the connectors therefore compares a string to a number; it
  converts the string and holds exactly when the difference in days is greater than the
  threshold. This is stated at each place where the connectors check a threshold:

  \<^item> the checks \<open>days > 60\<close>, \<open>days > 30\<close> and \<open>days > 7\<close> of \<open>getExtraDisasterData\<close>, which
    store 61, 31 or 8 as \<open>lastReport\<close>, and the string itself when none holds;
  \<^item> the checks \<open>lastReport > 60\<close>, \<open>> 30\<close> and \<open>> 7\<close> of the labels of a disaster, which
    convert any \<open>lastReport\<close> to a number, and their outcome on a \<open>lastReport\<close> stored in
    this way;
  \<^item> the checks \<open>days > 21\<close>, \<open>days > 14\<close> and \<open>days > 7\<close> of \<open>getProfileUpdateLabel\<close>, in
    the disasters and the countries connector;
  \<^item> the checks \<open>days > 60\<close>, \<open>days > 30\<close> and \<open>days > 7\<close> of the labels of a topic.

  \<open>getExtraDisasterData\<close> is described for every list of disasters and every reply whose
  facets have distinct keys, whatever their number and order: a disaster that a later
  disaster of the list shares its identifier with is left as it is; any other disaster
  takes its \<open>lastReport\<close> from the first date of its facet \<open><id>-day\<close>, or 61 when this
  facet is empty and the facet \<open><id>-year\<close> is not, and is left as it is when the reply
  has no facet \<open><id>-day\<close>. In particular a disaster, at any place of the list, whose
  latest report is at most 7 days old gets the string of \<open>diffDays\<close> as its \<open>lastReport\<close>,
  not a number.
\<close>

theorem diffDays_returns_string:
  "(\<exists>s. diffDays parse now date = JStr s) \<and>
   ToNumber (diffDays parse now date) = map_option (day_difference now) (clone parse now date) \<and>
   (js_gt (diffDays parse now date) n \<longleftrightarrow>
      (\<exists>other. clone parse now date = Some other \<and> n < day_difference now other)) \<and>
   lastReportFromDays (diffDays parse now date) =
     (case clone parse now date of
        None \<Rightarrow> JStr ''NaN''
      | Some other \<Rightarrow>
          if 60 < day_difference now other then JNum 61
          else if 30 < day_difference now other then JNum 31
          else if 7 < day_difference now other then JNum 8
          else JStr (show_int (day_difference now other))) \<and>
   getDisasterLabels m (d\<lparr>d_lastReport := lastReportFromDays (diffDays parse now date)\<rparr>) =
     (let labels = add_named_labels (m_labels m) (d_country d)
                     (add_named_labels (m_labels m) (d_type d) [])
      in case clone parse now date of
           None \<Rightarrow> labels
         | Some other \<Rightarrow>
             if 60 < day_difference now other
             then set_label (m_labels m) ''Last Report > 2 Months'' labels
             else if 30 < day_difference now other
             then set_label (m_labels m) ''Last Report > 1 Month'' labels
             else if 7 < day_difference now other
             then set_label (m_labels m) ''Last Report > 1 Week'' labels
             else labels) \<and>
   getDisasterLabels m e =
     (let labels = add_named_labels (m_labels m) (d_country e)
                     (add_named_labels (m_labels m) (d_type e) [])
      in case ToNumber (d_lastReport e) of
           None \<Rightarrow> labels
         | Some k \<Rightarrow>
             if 60 < k then set_label (m_labels m) ''Last Report > 2 Months'' labels
             else if 30 < k then set_label (m_labels m) ''Last Report > 1 Month'' labels
             else if 7 < k then set_label (m_labels m) ''Last Report > 1 Week'' labels
             else labels) \<and>
   getProfileUpdateLabel m lastUpdate =
     (case clone (m_parse m) (m_now m) lastUpdate of
        None \<Rightarrow> []
      | Some other \<Rightarrow>
          if 21 < day_difference (m_now m) other
          then set_label (m_labels m) ''Profile Update > 3 Weeks'' []
          else if 14 < day_difference (m_now m) other
          then set_label (m_labels m) ''Profile Update > 2 Weeks'' []
          else if 7 < day_difference (m_now m) other
          then set_label (m_labels m) ''Profile Update > 1 Weeks'' []
          else []) \<and>
   getTopicLabels m lst t =
     (let labels = add_named_labels (m_labels m) (t_theme t)
                     (add_named_labels (m_labels m) (t_disaster_type t) []);
          labels = set_label (m_labels m) (bl_name lst)
                     (if t_featured t then set_label (m_labels m) ''Featured'' labels else labels)
      in case clone (m_parse m) (m_now m) (Some (t_changed t)) of
           None \<Rightarrow> labels
         | Some other \<Rightarrow>
             if 60 < day_difference (m_now m) other
             then set_label (m_labels m) ''Last Update > 2 Months'' labels
             else if 30 < day_difference (m_now m) other
             then set_label (m_labels m) ''Last Update > 1 Month'' labels
             else if 7 < day_difference (m_now m) other
             then set_label (m_labels m) ''Last Update > 1 Week'' labels
             else labels) \<and>
   getExtraDisasterData parse now results [] = [] \<and>
   (distinct (map fst results) \<longrightarrow>
      getExtraDisasterData parse now results (d # ds) =
        (if d_id d \<in> d_id ` set ds then d
         else case map_of results (show_int (d_id d) @ ''-day'') of
                None \<Rightarrow> d
              | Some [] \<Rightarrow>
                  (case map_of results (show_int (d_id d) @ ''-year'') of
                     Some (y # ys) \<Rightarrow> d\<lparr>d_lastReport := JNum 61\<rparr>
                   | _ \<Rightarrow> d)
              | Some (v # vs) \<Rightarrow>
                  d\<lparr>d_lastReport := lastReportFromDays (diffDays parse now (Some v))\<rparr>) #
        getExtraDisasterData parse now results ds) \<and>
   (distinct (map fst results) \<and> j < length ds \<and>
    d_id (ds ! j) \<notin> d_id ` set (drop (Suc j) ds) \<and>
    map_of results (show_int (d_id (ds ! j)) @ ''-day'') = Some (latest # earlier) \<and>
    clone parse now (Some latest) = Some posted \<and> day_difference now posted \<le> 7 \<longrightarrow>
      getExtraDisasterData parse now results ds ! j =
        (ds ! j)\<lparr>d_lastReport := JStr (show_int (day_difference now posted))\<rparr>)"
proof (intro conjI impI)
  show "\<exists>s. diffDays parse now date = JStr s" by (rule diffDays_string)
  show "ToNumber (diffDays parse now date) = map_option (day_difference now) (clone parse now date)"
    by (rule ToNumber_diffDays)
  show "js_gt (diffDays parse now date) n \<longleftrightarrow>
      (\<exists>other. clone parse now date = Some other \<and> n < day_difference now other)"
    by (rule js_gt_diffDays)
  show "lastReportFromDays (diffDays parse now date) =
     (case clone parse now date of
        None \<Rightarrow> JStr ''NaN''
      | Some other \<Rightarrow>
          if 60 < day_difference now other then JNum 61
          else if 30 < day_difference now other then JNum 31
          else if 7 < day_difference now other then JNum 8
          else JStr (show_int (day_difference now other)))"
    by (rule lastReport_buckets)
  show "getDisasterLabels m (d\<lparr>d_lastReport := lastReportFromDays (diffDays parse now date)\<rparr>) =
     (let labels = add_named_labels (m_labels m) (d_country d)
                     (add_named_labels (m_labels m) (d_type d) [])
      in case clone parse now date of
           None \<Rightarrow> labels
         | Some other \<Rightarrow>
             if 60 < day_difference now other
             then set_label (m_labels m) ''Last Report > 2 Months'' labels
             else if 30 < day_difference now other
             then set_label (m_labels m) ''Last Report > 1 Month'' labels
             else if 7 < day_difference now other
             then set_label (m_labels m) ''Last Report > 1 Week'' labels
             else labels)"
    by (rule getDisasterLabels_thresholds)
  show "getDisasterLabels m e =
     (let labels = add_named_labels (m_labels m) (d_country e)
                     (add_named_labels (m_labels m) (d_type e) [])
      in case ToNumber (d_lastReport e) of
           None \<Rightarrow> labels
         | Some k \<Rightarrow>
             if 60 < k then set_label (m_labels m) ''Last Report > 2 Months'' labels
             else if 30 < k then set_label (m_labels m) ''Last Report > 1 Month'' labels
             else if 7 < k then set_label (m_labels m) ''Last Report > 1 Week'' labels
             else labels)"
    by (rule getDisasterLabels_coercion)
  show "getProfileUpdateLabel m lastUpdate =
     (case clone (m_parse m) (m_now m) lastUpdate of
        None \<Rightarrow> []
      | Some other \<Rightarrow>
          if 21 < day_difference (m_now m) other
          then set_label (m_labels m) ''Profile Update > 3 Weeks'' []
          else if 14 < day_difference (m_now m) other
          then set_label (m_labels m) ''Profile Update > 2 Weeks'' []
          else if 7 < day_difference (m_now m) other
          then set_label (m_labels m) ''Profile Update > 1 Weeks'' []
          else [])"
    by (rule getProfileUpdateLabel_thresholds)
  show "getTopicLabels m lst t =
     (let labels = add_named_labels (m_labels m) (t_theme t)
                     (add_named_labels (m_labels m) (t_disaster_type t) []);
          labels = set_label (m_labels m) (bl_name lst)
                     (if t_featured t then set_label (m_labels m) ''Featured'' labels else labels)
      in case clone (m_parse m) (m_now m) (Some (t_changed t)) of
           None \<Rightarrow> labels
         | Some other \<Rightarrow>
             if 60 < day_difference (m_now m) other
             then set_label (m_labels m) ''Last Update > 2 Months'' labels
             else if 30 < day_difference (m_now m) other
             then set_label (m_labels m) ''Last Update > 1 Month'' labels
             else if 7 < day_difference (m_now m) other
             then set_label (m_labels m) ''Last Update > 1 Week'' labels
             else labels)"
    by (rule getTopicLabels_thresholds)
  show "getExtraDisasterData parse now results [] = []"
    by (rule getExtraDisasterData_Nil)
next
  assume "distinct (map fst results)"
  then show "getExtraDisasterData parse now results (d # ds) =
        (if d_id d \<in> d_id ` set ds then d
         else case map_of results (show_int (d_id d) @ ''-day'') of
                None \<Rightarrow> d
              | Some [] \<Rightarrow>
                  (case map_of results (show_int (d_id d) @ ''-year'') of
                     Some (y # ys) \<Rightarrow> d\<lparr>d_lastReport := JNum 61\<rparr>
                   | _ \<Rightarrow> d)
              | Some (v # vs) \<Rightarrow>
                  d\<lparr>d_lastReport := lastReportFromDays (diffDays parse now (Some v))\<rparr>) #
        getExtraDisasterData parse now results ds"
    by (simp add: getExtraDisasterData_Cons updateLastReport_def
          split: option.split list.split)
next
  assume a: "distinct (map fst results) \<and> j < length ds \<and>
    d_id (ds ! j) \<notin> d_id ` set (drop (Suc j) ds) \<and>
    map_of results (show_int (d_id (ds ! j)) @ ''-day'') = Some (latest # earlier) \<and>
    clone parse now (Some latest) = Some posted \<and> day_difference now posted \<le> 7"
  then have "getExtraDisasterData parse now results ds ! j =
      updateLastReport parse now results (show_int (d_id (ds ! j))) (latest # earlier) (ds ! j)"
    by (simp add: getExtraDisasterData_nth)
  moreover have "lastReportFromDays (diffDays parse now (Some latest)) =
      JStr (show_int (day_difference now posted))"
    using a by (intro lastReport_recent) simp_all
  ultimately show "getExtraDisasterData parse now results ds ! j =
      (ds ! j)\<lparr>d_lastReport := JStr (show_int (day_difference now posted))\<rparr>"
    by (simp add: updateLastReport_def)
qed

theorem diffDays_returns_string_witness:
  "distinct (map fst ex_facets) \<and>
   getExtraDisasterData ex_parse ex_now ex_facets [ex_disaster, ex_alert_disaster] =
     [ex_disaster\<lparr>d_lastReport := JStr ''5''\<rparr>, ex_alert_disaster\<lparr>d_lastReport := JNum 61\<rparr>] \<and>
   (1::nat) < length [ex_alert_disaster, ex_disaster] \<and>
   d_id ([ex_alert_disaster, ex_disaster] ! 1) \<notin>
     d_id ` set (drop (Suc 1) [ex_alert_disaster, ex_disaster]) \<and>
   map_of ex_facets (show_int (d_id ([ex_alert_disaster, ex_disaster] ! 1)) @ ''-day'') =
     Some [''2026-10-28T00:00:00+00:00''] \<and>
   clone ex_parse ex_now (Some ''2026-10-28T00:00:00+00:00'') = Some 1793145600000 \<and>
   day_difference ex_now 1793145600000 \<le> 7 \<and>
   getExtraDisasterData ex_parse ex_now ex_facets [ex_alert_disaster, ex_disaster] ! 1 =
     ex_disaster\<lparr>d_lastReport := JStr ''5''\<rparr> \<and>
   js_gt (diffDays ex_parse ex_now (Some ''2026-10-28T00:00:00+00:00'')) 4 \<and>
   \<not> js_gt (diffDays ex_parse ex_now (Some ''2026-10-28T00:00:00+00:00'')) 5"
proof -
  let ?date = "''2026-10-28T00:00:00+00:00''"
  have f: "distinct (map fst ex_facets)" by code_simp
  have c: "clone ex_parse ex_now (Some ?date) = Some 1793145600000" by code_simp
  have dd: "day_difference ex_now 1793145600000 = 5" by code_simp
  have s: "show_int 5 = ''5''" by code_simp
  have i: "d_id ex_disaster = 100" "d_id ex_alert_disaster = 90" by code_simp+
  have k: "map_of ex_facets (show_int 100 @ ''-day'') = Some [?date]"
    "map_of ex_facets (show_int 90 @ ''-day'') = Some []"
    "map_of ex_facets (show_int 90 @ ''-year'') = Some [''2020-01-01T00:00:00+00:00'']"
    by code_simp+
  note head = diffDays_returns_string
    [where parse = ex_parse and now = ex_now and date = "Some ?date" and results = ex_facets
       and d = ex_disaster and ds = "[ex_alert_disaster]"]
  note tail = diffDays_returns_string
    [where parse = ex_parse and now = ex_now and date = "Some ?date" and results = ex_facets
       and d = ex_alert_disaster and ds = "[]"]
  from head have b: "lastReportFromDays (diffDays ex_parse ex_now (Some ?date)) = JStr ''5''"
    by (simp add: c dd s)
  from tail f have 1: "getExtraDisasterData ex_parse ex_now ex_facets [ex_alert_disaster] =
      [ex_alert_disaster\<lparr>d_lastReport := JNum 61\<rparr>]"
    by (simp add: i k)
  from head f have 2: "getExtraDisasterData ex_parse ex_now ex_facets [ex_disaster, ex_alert_disaster] =
      [ex_disaster\<lparr>d_lastReport := JStr ''5''\<rparr>, ex_alert_disaster\<lparr>d_lastReport := JNum 61\<rparr>]"
    by (simp add: i k b 1)
  note at = diffDays_returns_string
    [where parse = ex_parse and now = ex_now and results = ex_facets
       and ds = "[ex_alert_disaster, ex_disaster]" and j = 1 and latest = ?date
       and earlier = "[]" and posted = 1793145600000]
  from at f c have 3:
    "getExtraDisasterData ex_parse ex_now ex_facets [ex_alert_disaster, ex_disaster] ! 1 =
       ex_disaster\<lparr>d_lastReport := JStr ''5''\<rparr>"
    by (simp add: i k dd s)
  note above = diffDays_returns_string
    [where parse = ex_parse and now = ex_now and date = "Some ?date" and n = 4]
  note below = diffDays_returns_string
    [where parse = ex_parse and now = ex_now and date = "Some ?date" and n = 5]
  from above c have 4: "js_gt (diffDays ex_parse ex_now (Some ?date)) 4" by (simp add: dd)
  from below c have 5: "\<not> js_gt (diffDays ex_parse ex_now (Some ?date)) 5" by (simp add: dd)
  from f c 2 3 4 5 show ?thesis by (simp add: i k dd)
qed

section \<open>Removal of labels\<close>

text \<open>
  Claim C3, as amended. In the topics and in the countries connector,
  \<open>updateCardLabels\<close> removes a label of the card only if the managed label map
  \<open>this.labels\<close> has its name, so a label that is not managed is never removed; on a
  card whose labels have distinct names, a removed label is also absent from the wanted
  set. The disasters connector has no check against the managed label map: its
  \<open>updateCardLabels\<close> removes every label of the card whose name is absent from the wanted
  set, managed or not.
\<close>

theorem label_removal_by_connector:
  "(DeleteCardLabel c i \<in> set (topic_updateCardLabels m lst crd t) \<longrightarrow>
      c = c_id crd \<and>
      (\<exists>l\<in>set (c_labels crd). l_id l = i \<and> map_has (m_labels m) (l_name l) \<and>
         (distinct (map l_name (c_labels crd)) \<longrightarrow> \<not> map_has (getTopicLabels m lst t) (l_name l)))) \<and>
   (DeleteCardLabel c i \<in> set (country_updateCardLabels m crd co) \<longrightarrow>
      c = c_id crd \<and>
      (\<exists>l\<in>set (c_labels crd). l_id l = i \<and> map_has (m_labels m) (l_name l) \<and>
         (distinct (map l_name (c_labels crd)) \<longrightarrow>
            \<not> map_has (js_Map (getCountryLabels m co @ getProfileUpdateLabel m (c_profileUpdate crd)))
                 (l_name l)))) \<and>
   (l \<in> set (c_labels crd) \<and>
    \<not> map_has (js_Map (getDisasterLabels m d @ getProfileUpdateLabel m (c_profileUpdate crd))) (l_name l) \<longrightarrow>
      DeleteCardLabel (c_id crd) (l_id l) \<in> set (disaster_updateCardLabels m crd d))"
proof (intro conjI impI)
  assume a: "DeleteCardLabel c i \<in> set (topic_updateCardLabels m lst crd t)"
  then have "DeleteCardLabel c i \<in>
      set (fst (removeManagedLabels (m_labels m) (c_id crd) (c_labels crd) (getTopicLabels m lst t)))"
    by (simp add: topic_updateCardLabels_def Let_def case_prod_beta addNewLabels_no_delete)
  from removeManagedLabels_delete [OF this]
  show "c = c_id crd" and
    "\<exists>l\<in>set (c_labels crd). l_id l = i \<and> map_has (m_labels m) (l_name l) \<and>
       (distinct (map l_name (c_labels crd)) \<longrightarrow> \<not> map_has (getTopicLabels m lst t) (l_name l))"
    by simp_all
next
  assume a: "DeleteCardLabel c i \<in> set (country_updateCardLabels m crd co)"
  then have "DeleteCardLabel c i \<in>
      set (fst (removeManagedLabels (m_labels m) (c_id crd) (c_labels crd)
                  (js_Map (getCountryLabels m co @ getProfileUpdateLabel m (c_profileUpdate crd)))))"
    by (simp add: country_updateCardLabels_def Let_def case_prod_beta addNewLabels_no_delete)
  from removeManagedLabels_delete [OF this]
  show "c = c_id crd" and
    "\<exists>l\<in>set (c_labels crd). l_id l = i \<and> map_has (m_labels m) (l_name l) \<and>
       (distinct (map l_name (c_labels crd)) \<longrightarrow>
          \<not> map_has (js_Map (getCountryLabels m co @ getProfileUpdateLabel m (c_profileUpdate crd)))
               (l_name l))"
    by simp_all
next
  assume "l \<in> set (c_labels crd) \<and>
    \<not> map_has (js_Map (getDisasterLabels m d @ getProfileUpdateLabel m (c_profileUpdate crd))) (l_name l)"
  then show "DeleteCardLabel (c_id crd) (l_id l) \<in> set (disaster_updateCardLabels m crd d)"
    using disaster_removeOldLabels_delete [of l "c_labels crd"]
    by (simp add: disaster_updateCardLabels_def Let_def case_prod_beta)
qed

theorem label_removal_by_connector_witness:
  "DeleteCardLabel ''T1'' ''B7'' \<in>
     set (topic_updateCardLabels ex_manager ex_list (topic_prepareCard ex_topic_card) ex_topic) \<and>
   distinct (map l_name (c_labels (topic_prepareCard ex_topic_card))) \<and>
   (\<exists>l\<in>set (c_labels (topic_prepareCard ex_topic_card)).
      l_id l = ''B7'' \<and> map_has (m_labels ex_manager) (l_name l) \<and>
      \<not> map_has (getTopicLabels ex_manager ex_list ex_topic) (l_name l)) \<and>
   DeleteCardLabel ''K1'' ''B7'' \<in>
     set (country_updateCardLabels ex_manager (country_prepareCard ex_country_card) ex_country) \<and>
   (\<exists>l\<in>set (c_labels (country_prepareCard ex_country_card)).
      l_id l = ''B7'' \<and> map_has (m_labels ex_manager) (l_name l)) \<and>
   ex_custom \<in> set (c_labels ex_labelled_card) \<and>
   \<not> map_has (js_Map (getDisasterLabels ex_manager ex_disaster @
                       getProfileUpdateLabel ex_manager (c_profileUpdate ex_labelled_card)))
        (l_name ex_custom) \<and>
   DeleteCardLabel (c_id ex_labelled_card) (l_id ex_custom) \<in>
     set (disaster_updateCardLabels ex_manager ex_labelled_card ex_disaster)"
proof -
  have t: "DeleteCardLabel ''T1'' ''B7'' \<in>
     set (topic_updateCardLabels ex_manager ex_list (topic_prepareCard ex_topic_card) ex_topic)"
    by (simp add: ex_topic_labels)
  have k: "DeleteCardLabel ''K1'' ''B7'' \<in>
     set (country_updateCardLabels ex_manager (country_prepareCard ex_country_card) ex_country)"
    by (simp add: ex_country_labels)
  note d = ex_custom_on_card ex_custom_unwanted
  have ds: "distinct (map l_name (c_labels (topic_prepareCard ex_topic_card)))"
    by code_simp
  from label_removal_by_connector
         [of "''T1''" "''B7''" ex_manager ex_list "topic_prepareCard ex_topic_card" ex_topic
             ex_country ex_custom ex_disaster] t
  have 1: "\<exists>l\<in>set (c_labels (topic_prepareCard ex_topic_card)).
      l_id l = ''B7'' \<and> map_has (m_labels ex_manager) (l_name l) \<and>
      \<not> map_has (getTopicLabels ex_manager ex_list ex_topic) (l_name l)"
    using ds by blast
  from label_removal_by_connector
         [of "''K1''" "''B7''" ex_manager ex_list "country_prepareCard ex_country_card" ex_topic
             ex_country ex_custom ex_disaster] k
  have 2: "\<exists>l\<in>set (c_labels (country_prepareCard ex_country_card)).
      l_id l = ''B7'' \<and> map_has (m_labels ex_manager) (l_name l)"
    by blast
  from label_removal_by_connector
         [of "''T1''" "''B7''" ex_manager ex_list ex_labelled_card ex_topic
             ex_country ex_custom ex_disaster] d
  have 3: "DeleteCardLabel (c_id ex_labelled_card) (l_id ex_custom) \<in>
     set (disaster_updateCardLabels ex_manager ex_labelled_card ex_disaster)"
    by blast
  from t k d ds 1 2 3 show ?thesis by blast
qed

text \<open>
  The claim as stated fails in the disasters connector: a label that an editor put on
  the card, and that \<open>this.labels\<close> does not have, is removed.
\<close>

theorem unmanaged_label_removed_counterexample:
  "ex_custom \<in> set (c_labels ex_labelled_card) \<and>
   \<not> map_has (m_labels ex_manager) (l_name ex_custom) \<and>
   DeleteCardLabel (c_id ex_labelled_card) (l_id ex_custom) \<in>
     set (disaster_updateCardLabels ex_manager ex_labelled_card ex_disaster)"
  by (simp add: ex_custom_on_card ex_custom_unmanaged ex_disaster_labels)
     (simp add: ex_labelled_card_def disaster_prepareCard_def ex_card_def ex_custom_def
        split: option.split)

section \<open>The name of a card\<close>

text \<open>
  Claim C4, at the code. When the name of the card differs from the name of the disaster,
  \<open>updateCard\<close> of the disasters connector puts a name into the update, and the name it
  puts is the literal text \<open>disaster.name\<close>, not the name of the disaster: the call
  \<open>data.set('name', 'disaster.name')\<close> quotes the expression. After the update the name
  of the card is that text. When the names are equal no name is written. The topics
  connector writes the title of the topic.
\<close>

theorem disaster_name_is_literal:
  "(c_name crd \<noteq> d_name d \<longrightarrow>
      map_of (disaster_updateData m lst position crd d) ''name'' = Some (JStr ''disaster.name'')) \<and>
   (c_name crd = d_name d \<longrightarrow>
      map_of (disaster_updateData m lst position crd d) ''name'' = None) \<and>
   (c_name crd \<noteq> t_title t \<longrightarrow>
      map_of (topic_updateData m lst position crd t) ''name'' = Some (JStr (t_title t))) \<and>
   (c_name crd = t_title t \<longrightarrow>
      map_of (topic_updateData m lst position crd t) ''name'' = None)"
  by (simp add: disaster_data_name topic_data_name)

theorem disaster_name_is_literal_witness:
  "c_name (disaster_prepareCard ex_card) \<noteq> d_name ex_disaster \<and>
   d_name ex_disaster = ''Flood'' \<and>
   map_of (disaster_updateData ex_manager ex_list 9999900 (disaster_prepareCard ex_card) ex_disaster) ''name'' =
     Some (JStr ''disaster.name'') \<and>
   c_name ex_moved_card = d_name ex_disaster \<and>
   map_of (disaster_updateData ex_manager ex_list 9999900 ex_moved_card ex_disaster) ''name'' = None \<and>
   c_name ex_moved_card \<noteq> t_title ex_topic \<and>
   map_of (topic_updateData ex_manager ex_list 9999900 ex_moved_card ex_topic) ''name'' =
     Some (JStr ''Cholera'') \<and>
   c_name (topic_prepareCard ex_topic_card) = t_title ex_topic \<and>
   map_of (topic_updateData ex_manager ex_list 9999993 (topic_prepareCard ex_topic_card) ex_topic) ''name'' = None"
proof -
  have a: "c_name (disaster_prepareCard ex_card) \<noteq> d_name ex_disaster" by code_simp
  have b: "d_name ex_disaster = ''Flood''" by code_simp
  have c: "c_name ex_moved_card = d_name ex_disaster" by code_simp
  have e: "c_name ex_moved_card \<noteq> t_title ex_topic" by code_simp
  have f: "c_name (topic_prepareCard ex_topic_card) = t_title ex_topic" by code_simp
  have g: "t_title ex_topic = ''Cholera''" by code_simp
  from disaster_name_is_literal
         [of "disaster_prepareCard ex_card" ex_disaster ex_manager ex_list 9999900 ex_topic]
       disaster_name_is_literal [of ex_moved_card ex_disaster ex_manager ex_list 9999900 ex_topic]
       disaster_name_is_literal
         [of "topic_prepareCard ex_topic_card" ex_disaster ex_manager ex_list 9999993 ex_topic]
       a b c e f g
  show ?thesis by simp
qed

section \<open>List and position of a card\<close>

text \<open>
  Claim C5, as amended. In the topics connector, \<open>updateCard\<close> writes \<open>idList\<close> or \<open>pos\<close>
  only when the card is in a list of \<open>this.lists\<close>: a card in another list has neither
  written, while its description is still rewritten when it changed and its labels are
  still updated. The disasters connector has no such test: it writes \<open>idList\<close> whenever
  the list of the card is not the list of the status of the disaster, hence always for
  a card in a list that is not managed, and \<open>pos\<close> whenever the rounded position
  differs.
\<close>

theorem list_and_position_by_connector:
  "(\<not> managedList m crd \<longrightarrow>
      map_of (topic_updateData m lst position crd t) ''idList'' = None \<and>
      map_of (topic_updateData m lst position crd t) ''pos'' = None) \<and>
   (managedList m crd \<longrightarrow>
      map_of (topic_updateData m lst position crd t) ''idList'' =
        (if c_idList crd \<noteq> bl_id lst then Some (JStr (bl_id lst)) else None) \<and>
      map_of (topic_updateData m lst position crd t) ''pos'' =
        (if round_pos (c_pos crd) \<noteq> position then Some (JNum position) else None)) \<and>
   map_of (topic_updateData m lst position crd t) ''desc'' =
     (if Some (t_introduction t) \<noteq> c_introduction crd \<or> Some (t_lastUpdate t) \<noteq> c_lastUpdate crd
      then Some (JStr (topic_generateCardDescription (c_desc crd) (t_lastUpdate t) (t_introduction t)))
      else None) \<and>
   (map_of (m_lists m) (t_status t) = Some lst \<longrightarrow>
      (\<exists>more. topic_updateCard m board position crd t = Some (topic_updateCardLabels m lst crd t @ more))) \<and>
   map_of (disaster_updateData m lst position crd d) ''idList'' =
     (if c_idList crd \<noteq> bl_id lst then Some (JStr (bl_id lst)) else None) \<and>
   map_of (disaster_updateData m lst position crd d) ''pos'' =
     (if round_pos (c_pos crd) \<noteq> position then Some (JNum position) else None) \<and>
   (\<not> managedList m crd \<and> map_of (m_lists m) (d_status d) = Some lst \<longrightarrow>
      map_of (disaster_updateData m lst position crd d) ''idList'' = Some (JStr (bl_id lst)))"
proof -
  have "\<not> managedList m crd \<and> map_of (m_lists m) (d_status d) = Some lst \<longrightarrow> c_idList crd \<noteq> bl_id lst"
    using managedList_of_status by blast
  then show ?thesis
    by (simp add: topic_data_idList topic_data_pos topic_data_desc disaster_data_idList
          disaster_data_pos topic_updateCard_def Let_def)
qed

theorem list_and_position_by_connector_witness:
  "\<not> managedList ex_manager ex_parked_topic_card \<and>
   map_of (topic_updateData ex_manager ex_list 9999993 ex_parked_topic_card ex_topic) ''idList'' = None \<and>
   map_of (topic_updateData ex_manager ex_list 9999993 ex_parked_topic_card ex_topic) ''pos'' = None \<and>
   map_of (m_lists ex_manager) (t_status ex_topic) = Some ex_list \<and>
   (\<exists>more. topic_updateCard ex_manager ex_board 9999993 ex_parked_topic_card ex_topic =
      Some (topic_updateCardLabels ex_manager ex_list ex_parked_topic_card ex_topic @ more)) \<and>
   managedList ex_manager (topic_prepareCard ex_topic_card) \<and>
   map_of (topic_updateData ex_manager ex_list 9999990 (topic_prepareCard ex_topic_card) ex_topic) ''pos'' =
     Some (JNum 9999990) \<and>
   \<not> managedList ex_manager ex_moved_card \<and>
   map_of (m_lists ex_manager) (d_status ex_disaster) = Some ex_list \<and>
   map_of (disaster_updateData ex_manager ex_list 9999900 ex_moved_card ex_disaster) ''idList'' =
     Some (JStr ''L2'')"
proof -
  have a: "\<not> managedList ex_manager ex_parked_topic_card" by code_simp
  have b: "map_of (m_lists ex_manager) (t_status ex_topic) = Some ex_list" by code_simp
  have c: "managedList ex_manager (topic_prepareCard ex_topic_card)" by code_simp
  have d: "\<not> managedList ex_manager ex_moved_card" by code_simp
  have e: "map_of (m_lists ex_manager) (d_status ex_disaster) = Some ex_list" by code_simp
  have f: "round_pos (c_pos (topic_prepareCard ex_topic_card)) \<noteq> 9999990" by code_simp
  have g: "bl_id ex_list = ''L2''" by code_simp
  note parked = list_and_position_by_connector
         [of ex_manager ex_parked_topic_card ex_list 9999993 ex_topic ex_board ex_disaster]
  note kept = list_and_position_by_connector
         [of ex_manager "topic_prepareCard ex_topic_card" ex_list 9999990 ex_topic ex_board ex_disaster]
  note moved = list_and_position_by_connector
         [of ex_manager ex_moved_card ex_list 9999900 ex_topic ex_board ex_disaster]
  from parked a
  have 1: "map_of (topic_updateData ex_manager ex_list 9999993 ex_parked_topic_card ex_topic) ''idList'' = None \<and>
           map_of (topic_updateData ex_manager ex_list 9999993 ex_parked_topic_card ex_topic) ''pos'' = None"
    by blast
  from parked b
  have 2: "\<exists>more. topic_updateCard ex_manager ex_board 9999993 ex_parked_topic_card ex_topic =
             Some (topic_updateCardLabels ex_manager ex_list ex_parked_topic_card ex_topic @ more)"
    by blast
  from kept c
  have "map_of (topic_updateData ex_manager ex_list 9999990 (topic_prepareCard ex_topic_card) ex_topic) ''pos'' =
          (if round_pos (c_pos (topic_prepareCard ex_topic_card)) \<noteq> 9999990
           then Some (JNum 9999990) else None)"
    by blast
  with f
  have 3: "map_of (topic_updateData ex_manager ex_list 9999990 (topic_prepareCard ex_topic_card) ex_topic) ''pos'' =
             Some (JNum 9999990)"
    by simp
  from moved d e
  have "map_of (disaster_updateData ex_manager ex_list 9999900 ex_moved_card ex_disaster) ''idList'' =
          Some (JStr (bl_id ex_list))"
    by blast
  then
  have 4: "map_of (disaster_updateData ex_manager ex_list 9999900 ex_moved_card ex_disaster) ''idList'' =
             Some (JStr ''L2'')"
    by (simp only: g)
  from a b c d e 1 2 3 4 show ?thesis by blast
qed

text \<open>
  The claim as stated fails in the disasters connector: a card that was moved to a list
  outside \<open>this.lists\<close> is moved back.
\<close>

theorem unmanaged_list_overwritten_counterexample:
  "\<not> managedList ex_manager ex_moved_card \<and>
   disaster_updateCard ex_manager 9999900 ex_moved_card ex_disaster =
     Some [PutCard ''C1'' [(''idList'', JStr ''L2'')]]"
  by code_simp

section \<open>The date of the last change of the profile\<close>

text \<open>
  Claim C9, as amended, for the disasters connector. When the overview of the disaster
  differs from the profile stored in the card, the description is rewritten with the
  date of the run. When the overview is unchanged and the glide number differs, the
  description is rewritten with the date stored in the card, provided that date is not
  empty. When both are unchanged the description is not written.
\<close>

theorem timestamp_of_disaster_card:
  "(Some (d_overview d) \<noteq> c_profile crd \<longrightarrow>
      map_of (disaster_updateData m lst position crd d) ''desc'' =
        Some (JStr (profileUpdateHeader @ m_currentDate m @ profileHeader @ d_overview d @
                    glideHeader @ d_glide d))) \<and>
   (Some (d_overview d) = c_profile crd \<and> Some (d_glide d) \<noteq> c_glide crd \<and>
    c_profileUpdate crd = Some u \<and> u \<noteq> [] \<longrightarrow>
      map_of (disaster_updateData m lst position crd d) ''desc'' =
        Some (JStr (profileUpdateHeader @ u @ profileHeader @ d_overview d @
                    glideHeader @ d_glide d))) \<and>
   (Some (d_overview d) = c_profile crd \<and> Some (d_glide d) = c_glide crd \<longrightarrow>
      map_of (disaster_updateData m lst position crd d) ''desc'' = None)"
  by (auto simp: disaster_data_desc disaster_generateCardDescription_def)

theorem timestamp_of_disaster_card_witness:
  "Some (d_overview ex_disaster) \<noteq> c_profile ex_stale_card \<and>
   map_of (disaster_updateData ex_manager ex_list 9999900 ex_stale_card ex_disaster) ''desc'' =
     Some (JStr (profileUpdateHeader @ ''2 Nov 2026'' @ profileHeader @ ''Heavy rain.'' @
                 glideHeader @ ''FL-2024-000001'')) \<and>
   Some (d_overview ex_disaster) = c_profile ex_reglided_card \<and>
   Some (d_glide ex_disaster) \<noteq> c_glide ex_reglided_card \<and>
   c_profileUpdate ex_reglided_card = Some ''1 Nov 2026'' \<and>
   map_of (disaster_updateData ex_manager ex_list 9999900 ex_reglided_card ex_disaster) ''desc'' =
     Some (JStr (profileUpdateHeader @ ''1 Nov 2026'' @ profileHeader @ ''Heavy rain.'' @
                 glideHeader @ ''FL-2024-000001'')) \<and>
   Some (d_overview ex_disaster) = c_profile (disaster_prepareCard ex_card) \<and>
   Some (d_glide ex_disaster) = c_glide (disaster_prepareCard ex_card) \<and>
   map_of (disaster_updateData ex_manager ex_list 9999900 (disaster_prepareCard ex_card) ex_disaster)
     ''desc'' = None"
proof -
  have a: "Some (d_overview ex_disaster) \<noteq> c_profile ex_stale_card" by code_simp
  have b: "Some (d_overview ex_disaster) = c_profile ex_reglided_card" by code_simp
  have c: "Some (d_glide ex_disaster) \<noteq> c_glide ex_reglided_card" by code_simp
  have d: "c_profileUpdate ex_reglided_card = Some ''1 Nov 2026''" by code_simp
  have e: "Some (d_overview ex_disaster) = c_profile (disaster_prepareCard ex_card)" by code_simp
  have f: "Some (d_glide ex_disaster) = c_glide (disaster_prepareCard ex_card)" by code_simp
  have g: "m_currentDate ex_manager = ''2 Nov 2026''" by code_simp
  have h: "d_overview ex_disaster = ''Heavy rain.''" by code_simp
  have i: "d_glide ex_disaster = ''FL-2024-000001''" by code_simp
  from timestamp_of_disaster_card [of ex_disaster ex_stale_card ex_manager ex_list 9999900 "[]"]
       timestamp_of_disaster_card
         [of ex_disaster ex_reglided_card ex_manager ex_list 9999900 "''1 Nov 2026''"]
       timestamp_of_disaster_card
         [of ex_disaster "disaster_prepareCard ex_card" ex_manager ex_list 9999900 "[]"]
       a b c d e f
  show ?thesis unfolding g h i by simp
qed

text \<open>
  The claim as stated fails on a card whose stored date is empty: the overview is
  unchanged, the glide number changed, and the date of the run is written in place of
  the stored empty date (\<open>updateDate || this.currentDate\<close>).
\<close>

theorem empty_timestamp_counterexample:
  "c_profile ex_undated_card = Some (d_overview ex_disaster) \<and>
   c_profileUpdate ex_undated_card = Some [] \<and>
   m_currentDate ex_manager = ''2 Nov 2026'' \<and>
   map_of (disaster_updateData ex_manager ex_list 9999900 ex_undated_card ex_disaster) ''desc'' =
     Some (JStr (profileUpdateHeader @ ''2 Nov 2026'' @ profileHeader @ ''Heavy rain.'' @
                 glideHeader @ ''FL-2024-000001''))"
  by code_simp

section \<open>The order of the entities\<close>

text \<open>
  Claim C7, at the code. \<open>sortDisasters\<close> and \<open>sortTopics\<close> compare the property \<open>pos\<close>,
  which no entity has, so the status position plays no part and the entities are
  ordered by identifier alone: a disaster of status position 2 comes before one of
  status position 1 when its identifier is greater.
\<close>

theorem sort_ignores_status_position:
  "map d_id (sortDisasters [ex_disaster, ex_alert_disaster]) = [100, 90] \<and>
   map d_statusPosition (sortDisasters [ex_disaster, ex_alert_disaster]) = [2, 1] \<and>
   map t_id (sortTopics [ex_topic, ex_alert_topic]) = [7, 5] \<and>
   map t_statusPosition (sortTopics [ex_topic, ex_alert_topic]) = [2, 1]"
  by code_simp

section \<open>Running the reconciliation twice\<close>

text \<open>
  Claim C1, at the code. A card whose name differs from the name of its disaster gets
  the name \<open>disaster.name\<close> in the first run; in the second run, against the card as the
  first run left it, the names differ again and the same update is sent again. The
  second run is not free of calls.
\<close>

theorem second_run_repeats_name_update:
  "disaster_updateBoard ex_manager ex_board [ex_card] [ex_disaster] =
     ([PutCard ''C1'' [(''name'', JStr ''disaster.name'')]], True) \<and>
   disaster_updateBoard ex_manager ex_board
     [board_put [(''name'', JStr ''disaster.name'')] ex_card] [ex_disaster] =
     ([PutCard ''C1'' [(''name'', JStr ''disaster.name'')]], True)"
  by code_simp

section \<open>An entity without a card\<close>

text \<open>
  Claim C8, as amended. The statement is about every entity of a run, at any place of the
  run: the entities \<open>pre\<close> come before it and the entities \<open>post\<close> after it. When the run
  gets through \<open>pre\<close> and reaches a disaster or a topic that no card matches, and the
  status of the entity has a list on the board, the reconciler makes one call that creates
  the card, with the list, the name, the description, the position and the labels in this
  call; when the call succeeds it makes one call that attaches the URL of the entity to
  the new card (and, for a topic, the calls that add its checklists), and when the call
  fails it makes no further call for the entity. These calls come after the calls made
  for \<open>pre\<close> and before the calls made for \<open>post\<close>, and no card update is among them. When
  the status of the unmatched entity has no list on the board, the run ends at this
  entity: no card is created for it, nor for any entity after it. The cards that a
  disasters run has still to match after \<open>pre\<close> are the cards that matched none of the
  disasters of \<open>pre\<close>. The countries connector creates no card: a country that no card
  matches, at any place of the run, leads to no call at all.
\<close>

theorem unmatched_entity_by_connector:
  "(disaster_process m board cards pre = (calls_pre, Some cards_left) \<and>
    map_of cards_left (d_url d) = None \<and> map_of (m_lists m) (d_status d) = Some lst \<longrightarrow>
      disaster_process m board cards (pre @ d # post) =
        (calls_pre @
         (case board (PostCard (disaster_createData m lst (maxIndex - d_id d) d)) of
            Some cid \<Rightarrow> [PostCard (disaster_createData m lst (maxIndex - d_id d) d),
                         PostAttachment cid (d_url d)]
          | None \<Rightarrow> [PostCard (disaster_createData m lst (maxIndex - d_id d) d)]) @
         fst (disaster_process m board cards_left post),
         snd (disaster_process m board cards_left post))) \<and>
   (disaster_process m board cards pre = (calls_pre, Some cards_left) \<and>
    map_of cards_left (d_url d) = None \<and> map_of (m_lists m) (d_status d) = None \<longrightarrow>
      disaster_process m board cards (pre @ d # post) = (calls_pre, None)) \<and>
   (disaster_process m board cards pre = (calls_pre, Some cards_left) \<longrightarrow>
      cards_left = filter (\<lambda>(u, crd). u \<notin> set (map d_url pre)) cards) \<and>
   disaster_createData m lst position d =
     [(''idList'', JStr (bl_id lst)), (''urlSource'', JStr []), (''name'', JStr (d_name d)),
      (''desc'', JStr (profileUpdateHeader @ m_currentDate m @ profileHeader @ d_overview d @
                       glideHeader @ d_glide d)),
      (''pos'', JNum position),
      (''idLabels'', JStr (join '','' (map snd (getDisasterLabels m d))))] \<and>
   (topic_process m board tcards tpre = (tcalls_pre, True) \<and>
    map_of tcards (t_url t) = None \<and> map_of (m_lists m) (t_status t) = Some lst \<longrightarrow>
      topic_process m board tcards (tpre @ t # tpost) =
        (tcalls_pre @
         (case board (PostCard (topic_createData m lst (maxIndex - t_id t) t)) of
            Some cid \<Rightarrow> PostCard (topic_createData m lst (maxIndex - t_id t) t) #
                        PostAttachment cid (t_url t) # updateCardChecklists board cid [] t
          | None \<Rightarrow> [PostCard (topic_createData m lst (maxIndex - t_id t) t)]) @
         fst (topic_process m board tcards tpost),
         snd (topic_process m board tcards tpost))) \<and>
   (topic_process m board tcards tpre = (tcalls_pre, True) \<and>
    map_of tcards (t_url t) = None \<and> map_of (m_lists m) (t_status t) = None \<longrightarrow>
      topic_process m board tcards (tpre @ t # tpost) = (tcalls_pre, False)) \<and>
   (\<forall>c\<in>set (updateCardChecklists board cid [] t).
      (\<exists>n. c = PostChecklist cid n) \<or> (\<exists>l n p. c = PostCheckItem l n p)) \<and>
   topic_createData m lst position t =
     [(''idList'', JStr (bl_id lst)), (''urlSource'', JStr []), (''name'', JStr (t_title t)),
      (''desc'', JStr (lastUpdateHeader @ t_lastUpdate t @ introductionHeader @ t_introduction t)),
      (''pos'', JNum position),
      (''idLabels'', JStr (join '','' (map snd (getTopicLabels m lst t))))] \<and>
   (map_of (matchCards country_urlPattern country_prepareCard bcards) (co_url co) = None \<longrightarrow>
      country_updateBoard m bcards (cpre @ co # cpost) =
        country_updateBoard m bcards cpre @ country_updateBoard m bcards cpost)"
proof (intro conjI impI ballI)
  assume a: "disaster_process m board cards pre = (calls_pre, Some cards_left) \<and>
    map_of cards_left (d_url d) = None \<and> map_of (m_lists m) (d_status d) = Some lst"
  then have "disaster_process m board cards (pre @ d # post) =
       (calls_pre @ fst (disaster_process m board cards_left (d # post)),
        snd (disaster_process m board cards_left (d # post)))"
    by (intro disaster_process_append) simp
  moreover note disaster_process_head_created [of cards_left d m lst board post]
  ultimately show "disaster_process m board cards (pre @ d # post) =
        (calls_pre @
         (case board (PostCard (disaster_createData m lst (maxIndex - d_id d) d)) of
            Some cid \<Rightarrow> [PostCard (disaster_createData m lst (maxIndex - d_id d) d),
                         PostAttachment cid (d_url d)]
          | None \<Rightarrow> [PostCard (disaster_createData m lst (maxIndex - d_id d) d)]) @
         fst (disaster_process m board cards_left post),
         snd (disaster_process m board cards_left post))"
    using a by (simp del: disaster_process.simps)
next
  assume a: "disaster_process m board cards pre = (calls_pre, Some cards_left) \<and>
    map_of cards_left (d_url d) = None \<and> map_of (m_lists m) (d_status d) = None"
  then have "disaster_process m board cards (pre @ d # post) =
       (calls_pre @ fst (disaster_process m board cards_left (d # post)),
        snd (disaster_process m board cards_left (d # post)))"
    by (intro disaster_process_append) simp
  moreover note disaster_process_head_aborted [of cards_left d m board post]
  ultimately show "disaster_process m board cards (pre @ d # post) = (calls_pre, None)"
    using a by (simp del: disaster_process.simps)
next
  assume "disaster_process m board cards pre = (calls_pre, Some cards_left)"
  then show "cards_left = filter (\<lambda>(u, crd). u \<notin> set (map d_url pre)) cards"
    by (rule disaster_process_left)
next
  show "disaster_createData m lst position d =
     [(''idList'', JStr (bl_id lst)), (''urlSource'', JStr []), (''name'', JStr (d_name d)),
      (''desc'', JStr (profileUpdateHeader @ m_currentDate m @ profileHeader @ d_overview d @
                       glideHeader @ d_glide d)),
      (''pos'', JNum position),
      (''idLabels'', JStr (join '','' (map snd (getDisasterLabels m d))))]"
    by (simp add: disaster_createData_def disaster_generateCardDescription_def)
next
  assume a: "topic_process m board tcards tpre = (tcalls_pre, True) \<and>
    map_of tcards (t_url t) = None \<and> map_of (m_lists m) (t_status t) = Some lst"
  then have "topic_process m board tcards (tpre @ t # tpost) =
       (tcalls_pre @ fst (topic_process m board tcards (t # tpost)),
        snd (topic_process m board tcards (t # tpost)))"
    by (intro topic_process_append) simp
  moreover note topic_process_head_created [of tcards t m lst board tpost]
  ultimately show "topic_process m board tcards (tpre @ t # tpost) =
        (tcalls_pre @
         (case board (PostCard (topic_createData m lst (maxIndex - t_id t) t)) of
            Some cid \<Rightarrow> PostCard (topic_createData m lst (maxIndex - t_id t) t) #
                        PostAttachment cid (t_url t) # updateCardChecklists board cid [] t
          | None \<Rightarrow> [PostCard (topic_createData m lst (maxIndex - t_id t) t)]) @
         fst (topic_process m board tcards tpost),
         snd (topic_process m board tcards tpost))"
    using a by (simp del: topic_process.simps)
next
  assume a: "topic_process m board tcards tpre = (tcalls_pre, True) \<and>
    map_of tcards (t_url t) = None \<and> map_of (m_lists m) (t_status t) = None"
  then have "topic_process m board tcards (tpre @ t # tpost) =
       (tcalls_pre @ fst (topic_process m board tcards (t # tpost)),
        snd (topic_process m board tcards (t # tpost)))"
    by (intro topic_process_append) simp
  moreover note topic_process_head_aborted [of tcards t m board tpost]
  ultimately show "topic_process m board tcards (tpre @ t # tpost) = (tcalls_pre, False)"
    using a by (simp del: topic_process.simps)
next
  fix c assume "c \<in> set (updateCardChecklists board cid [] t)"
  then show "(\<exists>n. c = PostChecklist cid n) \<or> (\<exists>l n p. c = PostCheckItem l n p)"
    by (rule new_card_checklists)
next
  show "topic_createData m lst position t =
     [(''idList'', JStr (bl_id lst)), (''urlSource'', JStr []), (''name'', JStr (t_title t)),
      (''desc'', JStr (lastUpdateHeader @ t_lastUpdate t @ introductionHeader @ t_introduction t)),
      (''pos'', JNum position),
      (''idLabels'', JStr (join '','' (map snd (getTopicLabels m lst t))))]"
    by (simp add: topic_createData_def topic_generateCardDescription_def)
next
  assume "map_of (matchCards country_urlPattern country_prepareCard bcards) (co_url co) = None"
  then show "country_updateBoard m bcards (cpre @ co # cpost) =
        country_updateBoard m bcards cpre @ country_updateBoard m bcards cpost"
    by (rule country_unmatched_anywhere)
qed

theorem unmatched_entity_by_connector_witness:
  "disaster_process ex_manager ex_board [] [ex_disaster] =
     ([PostCard (disaster_createData ex_manager ex_list 9999900 ex_disaster),
       PostAttachment ''N1'' ''http://reliefweb.int/taxonomy/term/100''], Some []) \<and>
   map_of [] (d_url ex_alert_disaster) = (None :: card option) \<and>
   map_of (m_lists ex_manager) (d_status ex_alert_disaster) = Some ex_alert_list \<and>
   disaster_process ex_manager ex_board [] [ex_disaster, ex_alert_disaster] =
     ([PostCard (disaster_createData ex_manager ex_list 9999900 ex_disaster),
       PostAttachment ''N1'' ''http://reliefweb.int/taxonomy/term/100'',
       PostCard (disaster_createData ex_manager ex_alert_list 9999910 ex_alert_disaster),
       PostAttachment ''N1'' ''http://reliefweb.int/taxonomy/term/90''], Some []) \<and>
   disaster_process ex_manager ex_failing_board [] [ex_disaster, ex_alert_disaster] =
     ([PostCard (disaster_createData ex_manager ex_list 9999900 ex_disaster),
       PostCard (disaster_createData ex_manager ex_alert_list 9999910 ex_alert_disaster)], Some []) \<and>
   map_of (m_lists ex_manager) (d_status ex_past_disaster) = None \<and>
   disaster_process ex_manager ex_board [] [ex_disaster, ex_past_disaster, ex_alert_disaster] =
     ([PostCard (disaster_createData ex_manager ex_list 9999900 ex_disaster),
       PostAttachment ''N1'' ''http://reliefweb.int/taxonomy/term/100''], None) \<and>
   topic_process ex_manager ex_board [] [ex_topic] =
     (PostCard (topic_createData ex_manager ex_list 9999993 ex_topic) #
      PostAttachment ''N1'' ''https://reliefweb.int/node/7'' #
      updateCardChecklists ex_board ''N1'' [] ex_topic, True) \<and>
   map_of (m_lists ex_manager) (t_status ex_alert_topic) = Some ex_alert_list \<and>
   topic_process ex_manager ex_board [] [ex_topic, ex_alert_topic] =
     (PostCard (topic_createData ex_manager ex_list 9999993 ex_topic) #
      PostAttachment ''N1'' ''https://reliefweb.int/node/7'' #
      updateCardChecklists ex_board ''N1'' [] ex_topic @
      PostCard (topic_createData ex_manager ex_alert_list 9999995 ex_alert_topic) #
      PostAttachment ''N1'' ''https://reliefweb.int/node/5'' #
      updateCardChecklists ex_board ''N1'' [] ex_alert_topic, True) \<and>
   PostChecklist ''N1'' ''Rivers'' \<in> set (updateCardChecklists ex_board ''N1'' [] ex_topic) \<and>
   map_of (matchCards country_urlPattern country_prepareCard [ex_country_card]) (co_url ex_other_country)
     = None \<and>
   country_updateBoard ex_manager [ex_country_card] [ex_country, ex_other_country] =
     country_updateBoard ex_manager [ex_country_card] [ex_country]"
proof -
  let ?d100 = "disaster_createData ex_manager ex_list 9999900 ex_disaster"
  let ?d90 = "disaster_createData ex_manager ex_alert_list 9999910 ex_alert_disaster"
  let ?t7 = "topic_createData ex_manager ex_list 9999993 ex_topic"
  let ?t5 = "topic_createData ex_manager ex_alert_list 9999995 ex_alert_topic"
  have l1: "map_of (m_lists ex_manager) (d_status ex_disaster) = Some ex_list" by code_simp
  have l2: "map_of (m_lists ex_manager) (d_status ex_alert_disaster) = Some ex_alert_list"
    by code_simp
  have l3: "map_of (m_lists ex_manager) (d_status ex_past_disaster) = None" by code_simp
  have l4: "map_of (m_lists ex_manager) (t_status ex_topic) = Some ex_list" by code_simp
  have l5: "map_of (m_lists ex_manager) (t_status ex_alert_topic) = Some ex_alert_list"
    by code_simp
  have l6: "map_of (matchCards country_urlPattern country_prepareCard [ex_country_card])
              (co_url ex_other_country) = None"
    by code_simp
  have p: "maxIndex - d_id ex_disaster = 9999900" "maxIndex - d_id ex_alert_disaster = 9999910"
    "maxIndex - t_id ex_topic = 9999993" "maxIndex - t_id ex_alert_topic = 9999995"
    by code_simp+
  have u: "d_url ex_disaster = ''http://reliefweb.int/taxonomy/term/100''"
    "d_url ex_alert_disaster = ''http://reliefweb.int/taxonomy/term/90''"
    "t_url ex_topic = ''https://reliefweb.int/node/7''"
    "t_url ex_alert_topic = ''https://reliefweb.int/node/5''"
    by code_simp+
  have h: "PostChecklist ''N1'' ''Rivers'' \<in> set (updateCardChecklists ex_board ''N1'' [] ex_topic)"
    by code_simp
  have e: "disaster_process ex_manager ex_board [] [] = ([], Some [])"
    "disaster_process ex_manager ex_failing_board [] [] = ([], Some [])"
    "topic_process ex_manager ex_board [] [] = ([], True)"
    by simp_all
  note first = unmatched_entity_by_connector
    [where m = ex_manager and board = ex_board and cards = "[]" and pre = "[]" and calls_pre = "[]"
       and cards_left = "[]" and d = ex_disaster and lst = ex_list and post = "[]"
       and tcards = "[]" and tpre = "[]" and tcalls_pre = "[]" and t = ex_topic and tpost = "[]"]
  from first e l1 have 1: "disaster_process ex_manager ex_board [] [ex_disaster] =
     ([PostCard ?d100, PostAttachment ''N1'' ''http://reliefweb.int/taxonomy/term/100''], Some [])"
    by (simp add: p u ex_board_def del: disaster_process.simps)
  from first e l4 have 2: "topic_process ex_manager ex_board [] [ex_topic] =
     (PostCard ?t7 # PostAttachment ''N1'' ''https://reliefweb.int/node/7'' #
      updateCardChecklists ex_board ''N1'' [] ex_topic, True)"
    by (simp add: p u ex_board_def del: topic_process.simps)
  note second = unmatched_entity_by_connector
    [where m = ex_manager and board = ex_board and cards = "[]" and pre = "[ex_disaster]"
       and calls_pre = "[PostCard ?d100, PostAttachment ''N1'' ''http://reliefweb.int/taxonomy/term/100'']"
       and cards_left = "[]" and d = ex_alert_disaster and lst = ex_alert_list and post = "[]"
       and tcards = "[]" and tpre = "[ex_topic]"
       and tcalls_pre = "PostCard ?t7 # PostAttachment ''N1'' ''https://reliefweb.int/node/7'' #
                      updateCardChecklists ex_board ''N1'' [] ex_topic"
       and t = ex_alert_topic and tpost = "[]"]
  from second 1 e l2 have 3: "disaster_process ex_manager ex_board [] [ex_disaster, ex_alert_disaster] =
     ([PostCard ?d100, PostAttachment ''N1'' ''http://reliefweb.int/taxonomy/term/100'',
       PostCard ?d90, PostAttachment ''N1'' ''http://reliefweb.int/taxonomy/term/90''], Some [])"
    by (simp add: p u ex_board_def del: disaster_process.simps)
  from second 2 e l5 have 4: "topic_process ex_manager ex_board [] [ex_topic, ex_alert_topic] =
     (PostCard ?t7 # PostAttachment ''N1'' ''https://reliefweb.int/node/7'' #
      updateCardChecklists ex_board ''N1'' [] ex_topic @
      PostCard ?t5 # PostAttachment ''N1'' ''https://reliefweb.int/node/5'' #
      updateCardChecklists ex_board ''N1'' [] ex_alert_topic, True)"
    by (simp add: p u ex_board_def del: topic_process.simps)
  note failing1 = unmatched_entity_by_connector
    [where m = ex_manager and board = ex_failing_board and cards = "[]" and pre = "[]"
       and calls_pre = "[]" and cards_left = "[]" and d = ex_disaster and lst = ex_list and post = "[]"]
  from failing1 e l1 have 5: "disaster_process ex_manager ex_failing_board [] [ex_disaster] =
     ([PostCard ?d100], Some [])"
    by (simp add: p ex_failing_board_def del: disaster_process.simps)
  note failing2 = unmatched_entity_by_connector
    [where m = ex_manager and board = ex_failing_board and cards = "[]" and pre = "[ex_disaster]"
       and calls_pre = "[PostCard ?d100]" and cards_left = "[]" and d = ex_alert_disaster
       and lst = ex_alert_list and post = "[]"]
  from failing2 5 e l2 have 6:
    "disaster_process ex_manager ex_failing_board [] [ex_disaster, ex_alert_disaster] =
       ([PostCard ?d100, PostCard ?d90], Some [])"
    by (simp add: p ex_failing_board_def del: disaster_process.simps)
  note aborted = unmatched_entity_by_connector
    [where m = ex_manager and board = ex_board and cards = "[]" and pre = "[ex_disaster]"
       and calls_pre = "[PostCard ?d100, PostAttachment ''N1'' ''http://reliefweb.int/taxonomy/term/100'']"
       and cards_left = "[]" and d = ex_past_disaster and post = "[ex_alert_disaster]"]
  from aborted 1 l3 have 7:
    "disaster_process ex_manager ex_board [] [ex_disaster, ex_past_disaster, ex_alert_disaster] =
       ([PostCard ?d100, PostAttachment ''N1'' ''http://reliefweb.int/taxonomy/term/100''], None)"
    by (simp del: disaster_process.simps)
  note country = unmatched_entity_by_connector
    [where m = ex_manager and bcards = "[ex_country_card]" and co = ex_other_country
       and cpre = "[ex_country]" and cpost = "[]"]
  from country l6 have 8:
    "country_updateBoard ex_manager [ex_country_card] [ex_country, ex_other_country] =
       country_updateBoard ex_manager [ex_country_card] [ex_country]"
    by (simp add: country_updateBoard_def)
  from l2 l3 l5 l6 h 1 2 3 4 6 7 8 show ?thesis
    by (simp del: disaster_process.simps topic_process.simps)
qed

text \<open>
  The claim as stated fails in the countries connector: a country without a card gives
  no call, and in particular no card is created.
\<close>

theorem unmatched_country_counterexample:
  "map_of (matchCards country_urlPattern country_prepareCard []) (co_url ex_country) = None \<and>
   country_updateBoard ex_manager [] [ex_country] = []"
  by code_simp

section \<open>Archiving the cards that are left\<close>

text \<open>
  Claim C6, as amended. In the disasters connector, when the loop over the disasters
  has come to its end, the cards left in the map are the matched cards whose URL is
  not the URL of a disaster of the run, and the calls that follow are exactly the calls
  that archive those of them that are in a list of \<open>this.lists\<close> and are not archived
  yet; a card that is left in another list gets no call. The topics and the countries
  connector have no such step: no call of theirs archives a card.
\<close>

theorem archival_by_connector:
  "(disaster_process m board (matchCards disaster_urlPattern disaster_prepareCard bcards) ds =
      (calls, Some left) \<longrightarrow>
      disaster_updateBoard m board bcards ds = (calls @ disaster_archive m left, True) \<and>
      left = filter (\<lambda>(u, crd). u \<notin> set (map d_url ds))
               (matchCards disaster_urlPattern disaster_prepareCard bcards) \<and>
      (\<forall>c. c \<in> set (disaster_archive m left) \<longleftrightarrow>
         (\<exists>(u, crd)\<in>set left. c = PutCard (c_id crd) [(''closed'', JStr ''true'')] \<and>
            managedList m crd \<and> \<not> c_closed crd))) \<and>
   (\<forall>c\<in>set (fst (topic_updateBoard m board bcards ts)). \<not> archives c) \<and>
   (\<forall>c\<in>set (country_updateBoard m bcards countries). \<not> archives c)"
proof (intro conjI impI ballI)
  assume p: "disaster_process m board (matchCards disaster_urlPattern disaster_prepareCard bcards) ds =
      (calls, Some left)"
  then show "disaster_updateBoard m board bcards ds = (calls @ disaster_archive m left, True)"
    by (simp add: disaster_updateBoard_def)
  from p show "left = filter (\<lambda>(u, crd). u \<notin> set (map d_url ds))
               (matchCards disaster_urlPattern disaster_prepareCard bcards)"
    by (rule disaster_process_left)
  show "\<forall>c. c \<in> set (disaster_archive m left) \<longleftrightarrow>
         (\<exists>(u, crd)\<in>set left. c = PutCard (c_id crd) [(''closed'', JStr ''true'')] \<and>
            managedList m crd \<and> \<not> c_closed crd)"
    using disaster_archive_calls by blast
next
  fix c assume "c \<in> set (fst (topic_updateBoard m board bcards ts))"
  then show "\<not> archives c"
    unfolding topic_updateBoard_def by (rule topic_process_no_archive)
next
  fix c assume "c \<in> set (country_updateBoard m bcards countries)"
  then show "\<not> archives c" by (rule country_updateBoard_no_archive)
qed

theorem archival_by_connector_witness:
  "disaster_process ex_manager ex_board
     (matchCards disaster_urlPattern disaster_prepareCard [ex_card, ex_away_card]) [] =
     ([], Some (matchCards disaster_urlPattern disaster_prepareCard [ex_card, ex_away_card])) \<and>
   managedList ex_manager (disaster_prepareCard ex_card) \<and>
   \<not> managedList ex_manager (disaster_prepareCard ex_away_card) \<and>
   disaster_updateBoard ex_manager ex_board [ex_card, ex_away_card] [] =
     ([PutCard ''C1'' [(''closed'', JStr ''true'')]], True) \<and>
   PostCardLabel ''T1'' ''B3'' \<in> set (fst (topic_updateBoard ex_manager ex_board [ex_topic_card] [ex_topic])) \<and>
   \<not> archives (PostCardLabel ''T1'' ''B3'') \<and>
   PostCardLabel ''K1'' ''B2'' \<in> set (country_updateBoard ex_manager [ex_country_card] [ex_country]) \<and>
   \<not> archives (PostCardLabel ''K1'' ''B2'')"
proof -
  let ?cards = "matchCards disaster_urlPattern disaster_prepareCard [ex_card, ex_away_card]"
  have p: "disaster_process ex_manager ex_board ?cards [] = ([], Some ?cards)"
    by simp
  have a: "disaster_archive ex_manager ?cards = [PutCard ''C1'' [(''closed'', JStr ''true'')]]"
    by code_simp
  have m1: "managedList ex_manager (disaster_prepareCard ex_card)" by code_simp
  have m2: "\<not> managedList ex_manager (disaster_prepareCard ex_away_card)" by code_simp
  have t: "PostCardLabel ''T1'' ''B3'' \<in>
             set (fst (topic_updateBoard ex_manager ex_board [ex_topic_card] [ex_topic]))"
    by code_simp
  have k: "PostCardLabel ''K1'' ''B2'' \<in>
             set (country_updateBoard ex_manager [ex_country_card] [ex_country])"
    by code_simp
  note on_disasters = archival_by_connector
    [where m = ex_manager and board = ex_board and bcards = "[ex_card, ex_away_card]"
       and ds = "[]" and calls = "[]" and left = ?cards]
  note on_topics = archival_by_connector
    [where m = ex_manager and board = ex_board and bcards = "[ex_topic_card]" and ts = "[ex_topic]"]
  note on_countries = archival_by_connector
    [where m = ex_manager and bcards = "[ex_country_card]" and countries = "[ex_country]"]
  from on_disasters p have "disaster_updateBoard ex_manager ex_board [ex_card, ex_away_card] [] =
     ([] @ disaster_archive ex_manager ?cards, True)"
    by blast
  then have 1: "disaster_updateBoard ex_manager ex_board [ex_card, ex_away_card] [] =
     ([PutCard ''C1'' [(''closed'', JStr ''true'')]], True)"
    by (simp only: a append_Nil)
  from on_topics t have 2: "\<not> archives (PostCardLabel ''T1'' ''B3'')" by blast
  from on_countries k have 3: "\<not> archives (PostCardLabel ''K1'' ''B2'')" by blast
  from p m1 m2 t k 1 2 3 show ?thesis by blast
qed

text \<open>
  The claim as stated fails in the topics connector: the card of a topic that is no
  longer upstream, open and in a managed list, is not archived.
\<close>

theorem topic_card_not_archived_counterexample:
  "map_of (matchCards topic_urlPattern topic_prepareCard [ex_topic_card]) ''https://reliefweb.int/node/7''
     = Some (topic_prepareCard ex_topic_card) \<and>
   managedList ex_manager (topic_prepareCard ex_topic_card) \<and>
   \<not> c_closed (topic_prepareCard ex_topic_card) \<and>
   topic_updateBoard ex_manager ex_board [ex_topic_card] [] = ([], True)"
  by code_simp

end
